theory Spec2Isabelle
  imports Main "HOL-Library.Sublist" "HOL-Library.AList"
begin

section \<open>Python values shared by the modules\<close>

text \<open>
  Exceptions are values. Only subclasses of Python's \<open>Exception\<close> are modelled: every
  handler of the three modules is \<open>except Exception\<close> or narrower. \<open>str_exn\<close> is
  \<open>str(e)\<close>. \<open>OSError\<close> stands for \<open>OSError\<close> and its subclasses \<open>socket.gaierror\<close>
  and \<open>socket.herror\<close>; \<open>TimeoutError\<close> is \<open>asyncio.TimeoutError\<close>; \<open>PlainException\<close> is
  the class \<open>Exception\<close> itself, as raised by \<open>raise Exception(...)\<close>.
\<close>

datatype exn_class =
  PlainException | ValueError | TypeError | OSError | TimeoutError | OtherException

datatype exn = Exn (exn_class: exn_class) (str_exn: string)

text \<open>Decimal rendering of an integer inside an f-string.\<close>

definition digit_char :: "nat \<Rightarrow> char" where
  "digit_char d = ''0123456789'' ! d"

fun str_nat :: "nat \<Rightarrow> string" where
  "str_nat n =
     (if n < 10 then [digit_char n]
      else str_nat (n div 10) @ [digit_char (n mod 10)])"

definition str_int :: "int \<Rightarrow> string" where
  "str_int i = (if i < 0 then CHR ''-'' # str_nat (nat (- i)) else str_nat (nat i))"

text \<open>\<open>str.lower()\<close> and \<open>str.upper()\<close> on the ASCII letters.\<close>

definition ascii_uppercase :: string where
  "ascii_uppercase = ''ABCDEFGHIJKLMNOPQRSTUVWXYZ''"

definition ascii_lowercase :: string where
  "ascii_lowercase = ''abcdefghijklmnopqrstuvwxyz''"

definition lower_char :: "char \<Rightarrow> char" where
  "lower_char c =
     (case map_of (zip ascii_uppercase ascii_lowercase) c of Some d \<Rightarrow> d | None \<Rightarrow> c)"

definition upper_char :: "char \<Rightarrow> char" where
  "upper_char c =
     (case map_of (zip ascii_lowercase ascii_uppercase) c of Some d \<Rightarrow> d | None \<Rightarrow> c)"

definition lower :: "string \<Rightarrow> string" where
  "lower s = map lower_char s"

definition upper :: "string \<Rightarrow> string" where
  "upper s = map upper_char s"

text \<open>
  A slice \<open>xs[a:b]\<close> with Python's rules: a negative index counts from the end, and
  both ends are clamped to \<open>0 .. len(xs)\<close>.
\<close>

definition slice_index :: "nat \<Rightarrow> int \<Rightarrow> nat" where
  "slice_index n i =
     (let j = (if i < 0 then i + int n else i)
      in if j < 0 then 0 else if j > int n then n else nat j)"

definition py_slice :: "'a list \<Rightarrow> int \<Rightarrow> int \<Rightarrow> 'a list" where
  "py_slice xs a b = drop (slice_index (length xs) a) (take (slice_index (length xs) b) xs)"

definition py_slice_to :: "'a list \<Rightarrow> int \<Rightarrow> 'a list" where
  "py_slice_to xs b = take (slice_index (length xs) b) xs"

text \<open>\<open>sep.join(parts)\<close>.\<close>

fun join :: "string \<Rightarrow> string list \<Rightarrow> string" where
  "join sep [] = []"
| "join sep [x] = x"
| "join sep (x # y # ys) = x @ sep @ join sep (y # ys)"


section \<open>web.py: URL validation and the redirect-following fetch\<close>

definition USER_AGENT :: string where
  "USER_AGENT = ''Mozilla/5.0 (Macintosh; Intel Mac OS X 14_7_2) AppleWebKit/537.36''"

definition MAX_REDIRECTS :: int where
  "MAX_REDIRECTS = 5"

text \<open>
  An address of the \<open>ipaddress\<close> module is its version and its integer value; a network
  is its version, its network address and its prefix length. \<open>ip in network\<close> is false
  across versions and compares the bits under the netmask otherwise.
\<close>

datatype ip_version = V4 | V6

datatype ip = IP (version: ip_version) (ip_int: int)

datatype ip_network = Network (net_version: ip_version) (network_address: int) (prefixlen: nat)

definition max_prefixlen :: "ip_version \<Rightarrow> nat" where
  "max_prefixlen v = (case v of V4 \<Rightarrow> 32 | V6 \<Rightarrow> 128)"

definition ip_in_network :: "ip \<Rightarrow> ip_network \<Rightarrow> bool" where
  "ip_in_network a net =
     (version a = net_version net \<and>
      ip_int a div 2 ^ (max_prefixlen (net_version net) - prefixlen net)
        = network_address net div 2 ^ (max_prefixlen (net_version net) - prefixlen net))"

definition ipv4 :: "int \<Rightarrow> int \<Rightarrow> int \<Rightarrow> int \<Rightarrow> int" where
  "ipv4 a b c d = ((a * 256 + b) * 256 + c) * 256 + d"

definition PRIVATE_IP_RANGES :: "ip_network list" where
  "PRIVATE_IP_RANGES =
     [Network V4 (ipv4 0 0 0 0) 8,
      Network V4 (ipv4 127 0 0 0) 8,
      Network V4 (ipv4 10 0 0 0) 8,
      Network V4 (ipv4 100 64 0 0) 10,
      Network V4 (ipv4 172 16 0 0) 12,
      Network V4 (ipv4 192 168 0 0) 16,
      Network V4 (ipv4 169 254 0 0) 16,
      Network V6 0 128,
      Network V6 1 128,
      Network V6 (0xfc00 * 2 ^ 112) 7,
      Network V6 (0xfe80 * 2 ^ 112) 10]"

definition BLOCKED_HOSTNAMES :: "string set" where
  "BLOCKED_HOSTNAMES = {''localhost'', ''metadata.google.internal'', ''169.254.169.254''}"

text \<open>
  The result of \<open>urlparse\<close>: the fields \<open>_validate_url\<close> reads. \<open>hostname\<close> is a property
  computed on access, which can raise on its own.
\<close>

record parsed_url =
  scheme :: string
  netloc :: string
  hostname :: "exn + string option"

text \<open>
  An \<open>httpx.Response\<close>: the header map is keyed by lower-case names (httpx looks headers
  up case-insensitively).
\<close>

record response =
  status_code :: int
  headers :: "string \<rightharpoonup> string"
  body_text :: string
  response_url :: string

text \<open>
  The libraries and the network the module calls, as parameters. The network has a state
  \<open>'n\<close> of its own: name resolution and servers may answer differently from one call to
  the next.
  \<^item> \<open>urlparse\<close>: \<open>urllib.parse.urlparse\<close>;
  \<^item> \<open>ip_address\<close>: \<open>ipaddress.ip_address\<close>, \<open>None\<close> where it raises \<open>ValueError\<close>;
  \<^item> \<open>getaddrinfo\<close>: \<open>socket.getaddrinfo(hostname, None)\<close>, giving the address string
    \<open>r[4][0]\<close> of each entry;
  \<^item> \<open>http_get\<close>: \<open>client.get(url, headers={"User-Agent": USER_AGENT})\<close> of a client that
    does not follow redirects;
  \<^item> \<open>raise_for_status\<close>: the exception \<open>r.raise_for_status()\<close> raises, if any;
  \<^item> \<open>json_pretty\<close>: \<open>json.dumps(r.json(), indent=2)\<close>;
  \<^item> \<open>doc_summary\<close>, \<open>doc_title\<close>: readability's \<open>Document(text).summary()\<close> and
    \<open>.title()\<close>;
  \<^item> \<open>to_markdown\<close>, \<open>strip_tags\<close>: the regular-expression rewrites \<open>_to_markdown\<close> and
    \<open>_strip_tags\<close>.
\<close>

record 'n web_env =
  urlparse :: "string \<Rightarrow> exn + parsed_url"
  ip_address :: "string \<Rightarrow> ip option"
  getaddrinfo :: "string \<Rightarrow> 'n \<Rightarrow> (exn + string list) \<times> 'n"
  http_get :: "string \<Rightarrow> string \<Rightarrow> 'n \<Rightarrow> (exn + response) \<times> 'n"
  raise_for_status :: "response \<Rightarrow> exn option"
  json_pretty :: "response \<Rightarrow> exn + string"
  doc_summary :: "string \<Rightarrow> exn + string"
  doc_title :: "string \<Rightarrow> exn + string"
  to_markdown :: "string \<Rightarrow> string"
  strip_tags :: "string \<Rightarrow> string"

text \<open>\<open>_is_private_ip\<close>: the loop over \<open>PRIVATE_IP_RANGES\<close> inside \<open>try\<close>.\<close>

fun in_any_network :: "ip \<Rightarrow> ip_network list \<Rightarrow> bool" where
  "in_any_network a [] = False"
| "in_any_network a (net # nets) = (if ip_in_network a net then True else in_any_network a nets)"

definition is_private_ip :: "'n web_env \<Rightarrow> string \<Rightarrow> bool" where
  "is_private_ip env ip_str =
     (case ip_address env ip_str of
        None \<Rightarrow> False
      | Some a \<Rightarrow> in_any_network a PRIVATE_IP_RANGES)"

text \<open>
  \<open>_resolve_hostname\<close>: the addresses in order, each once; \<open>[]\<close> on the three socket
  errors. Any other exception leaves the function.
\<close>

fun unique_ips :: "string list \<Rightarrow> string list \<Rightarrow> string list" where
  "unique_ips ips [] = ips"
| "unique_ips ips (a # result) = unique_ips (if a \<notin> set ips then ips @ [a] else ips) result"

definition resolve_hostname :: "'n web_env \<Rightarrow> string \<Rightarrow> 'n \<Rightarrow> (exn + string list) \<times> 'n" where
  "resolve_hostname env host n =
     (case getaddrinfo env host n of
        (Inr result, n') \<Rightarrow> (Inr (unique_ips [] result), n')
      | (Inl e, n') \<Rightarrow> (if exn_class e = OSError then (Inr [], n') else (Inl e, n')))"

text \<open>\<open>_validate_url\<close>: the verdict and its reason.\<close>

fun any_private :: "'n web_env \<Rightarrow> string list \<Rightarrow> bool" where
  "any_private env [] = False"
| "any_private env (a # ips) = (if is_private_ip env a then True else any_private env ips)"

definition validate_url :: "'n web_env \<Rightarrow> string \<Rightarrow> 'n \<Rightarrow> (bool \<times> string) \<times> 'n" where
  "validate_url env url n =
     (case urlparse env url of
        Inl e \<Rightarrow> ((False, str_exn e), n)
      | Inr p \<Rightarrow>
          if scheme p \<noteq> ''http'' \<and> scheme p \<noteq> ''https'' then
            ((False, ''Only http/https allowed, got '' @ [CHR 0x27]
                       @ (if scheme p = [] then ''none'' else scheme p)), n)
          else if netloc p = [] then ((False, ''Missing domain''), n)
          else
            (case hostname p of
               Inl e \<Rightarrow> ((False, str_exn e), n)
             | Inr None \<Rightarrow> ((False, ''Missing hostname''), n)
             | Inr (Some h) \<Rightarrow>
                 if h = [] then ((False, ''Missing hostname''), n)
                 else if lower h \<in> BLOCKED_HOSTNAMES then
                   ((False, ''Access to '' @ lower h @ '' is blocked''), n)
                 else
                   (case resolve_hostname env (lower h) n of
                      (Inl e, n') \<Rightarrow> ((False, str_exn e), n')
                    | (Inr ips, n') \<Rightarrow>
                        if ips = [] then ((False, ''Could not resolve hostname''), n')
                        else if any_private env ips then
                          ((False, ''Access to private/internal addresses is blocked''), n')
                        else ((True, []), n'))))"

text \<open>
  What one fetch does on the network, in order: the verdict of each \<open>_validate_url\<close> call
  and each request sent. The log is written, never read.
\<close>

datatype net_event = Validated string bool | Requested string

record 'n net =
  trace :: "net_event list"
  nstate :: 'n

definition call_validate_url :: "'n web_env \<Rightarrow> string \<Rightarrow> 'n net \<Rightarrow> (bool \<times> string) \<times> 'n net" where
  "call_validate_url env url s =
     (case validate_url env url (nstate s) of
        (verdict, n') \<Rightarrow>
          (verdict, s\<lparr>trace := trace s @ [Validated url (fst verdict)], nstate := n'\<rparr>))"

definition client_get :: "'n web_env \<Rightarrow> string \<Rightarrow> 'n net \<Rightarrow> (exn + response) \<times> 'n net" where
  "client_get env url s =
     (case http_get env url USER_AGENT (nstate s) of
        (r, n') \<Rightarrow> (r, s\<lparr>trace := trace s @ [Requested url], nstate := n'\<rparr>))"

definition is_redirect_status :: "int \<Rightarrow> bool" where
  "is_redirect_status c = (c = 301 \<or> c = 302 \<or> c = 303 \<or> c = 307 \<or> c = 308)"

definition too_many_redirects :: exn where
  "too_many_redirects =
     Exn PlainException (''Too many redirects (max '' @ str_int MAX_REDIRECTS @ '')'')"

text \<open>\<open>WebFetchTool._fetch_with_redirect_validation\<close>.\<close>

function fetch_with_redirect_validation ::
  "'n web_env \<Rightarrow> string \<Rightarrow> int \<Rightarrow> 'n net \<Rightarrow> (exn + response) \<times> 'n net" where
  "fetch_with_redirect_validation env url redirect_count s =
     (if redirect_count > MAX_REDIRECTS then (Inl too_many_redirects, s)
      else
        (case client_get env url s of
           (Inl e, s1) \<Rightarrow> (Inl e, s1)
         | (Inr r, s1) \<Rightarrow>
             if is_redirect_status (status_code r) then
               (case headers r ''location'' of
                  None \<Rightarrow>
                    (Inl (Exn PlainException ''Redirect response missing Location header''), s1)
                | Some redirect_url \<Rightarrow>
                    if redirect_url = [] then
                      (Inl (Exn PlainException ''Redirect response missing Location header''), s1)
                    else
                      (case call_validate_url env redirect_url s1 of
                         ((is_valid, error_msg), s2) \<Rightarrow>
                           if \<not> is_valid then
                             (Inl (Exn PlainException
                                     (''Redirect target validation failed: '' @ error_msg)), s2)
                           else
                             fetch_with_redirect_validation env redirect_url
                               (redirect_count + 1) s2))
             else (Inr r, s1)))"
  by pat_completeness auto
termination
  by (relation "measure (\<lambda>(env, url, redirect_count, s). nat (MAX_REDIRECTS + 1 - redirect_count))")
    auto

text \<open>
  The dictionary \<open>WebFetchTool.execute\<close> serialises with \<open>json.dumps\<close>: either the error
  and the requested URL, or the seven fields of a fetched page.
\<close>

datatype fetch_outcome =
    FetchError (error: string) (error_url: string)
  | FetchOk (ok_url: string) (finalUrl: string) (status: int) (extractor: string)
      (truncated: bool) (text_length: nat) (fetched_text: string)

record web_fetch_tool =
  max_chars :: int

text \<open>The classification of the body by content type, giving the text and the extractor.\<close>

definition extract_content :: "'n web_env \<Rightarrow> response \<Rightarrow> string \<Rightarrow> exn + (string \<times> string)" where
  "extract_content env r extractMode =
     (let ctype = (case headers r ''content-type'' of Some c \<Rightarrow> c | None \<Rightarrow> []);
          start = lower (py_slice_to (body_text r) 256)
      in if sublist ''application/json'' ctype then
           (case json_pretty env r of Inl e \<Rightarrow> Inl e | Inr t \<Rightarrow> Inr (t, ''json''))
         else if sublist ''text/html'' ctype \<or> prefix ''<!doctype'' start \<or> prefix ''<html'' start then
           (case doc_summary env (body_text r) of
              Inl e \<Rightarrow> Inl e
            | Inr summary \<Rightarrow>
                (let content = (if extractMode = ''markdown'' then to_markdown env summary
                                else strip_tags env summary)
                 in case doc_title env (body_text r) of
                      Inl e \<Rightarrow> Inl e
                    | Inr title \<Rightarrow>
                        Inr (if title \<noteq> [] then ''# '' @ title @ [CHR 0x0A, CHR 0x0A] @ content
                             else content, ''readability'')))
         else Inr (body_text r, ''raw''))"

text \<open>
  \<open>WebFetchTool.execute\<close>: validation of the URL first, then everything else inside
  \<open>try ... except Exception\<close>.
\<close>

definition web_fetch_execute ::
  "'n web_env \<Rightarrow> web_fetch_tool \<Rightarrow> string \<Rightarrow> string \<Rightarrow> int option \<Rightarrow> 'n net
     \<Rightarrow> fetch_outcome \<times> 'n net" where
  "web_fetch_execute env self url extractMode maxChars s =
     (let limit = (case maxChars of None \<Rightarrow> max_chars self
                   | Some m \<Rightarrow> if m = 0 then max_chars self else m)
      in case call_validate_url env url s of
           ((is_valid, error_msg), s1) \<Rightarrow>
             if \<not> is_valid then (FetchError (''URL validation failed: '' @ error_msg) url, s1)
             else
               (case fetch_with_redirect_validation env url 0 s1 of
                  (Inl e, s2) \<Rightarrow> (FetchError (str_exn e) url, s2)
                | (Inr r, s2) \<Rightarrow>
                    (case raise_for_status env r of
                       Some e \<Rightarrow> (FetchError (str_exn e) url, s2)
                     | None \<Rightarrow>
                         (case extract_content env r extractMode of
                            Inl e \<Rightarrow> (FetchError (str_exn e) url, s2)
                          | Inr (body, how) \<Rightarrow>
                              (let cut = (int (length body) > limit);
                                   body' = (if cut then py_slice_to body limit else body)
                               in (FetchOk url (response_url r) (status_code r) how cut
                                     (length body') body', s2))))))"

text \<open>Reading the log of one fetch.\<close>

definition count_requests :: "net_event list \<Rightarrow> nat" where
  "count_requests tr = length (filter (\<lambda>e. case e of Requested u \<Rightarrow> True | Validated u b \<Rightarrow> False) tr)"

text \<open>
  The events one call of \<open>execute\<close> adds to the log, and the redirect hops among them:
  the requests after the first, which is the request of the URL itself.
\<close>

definition fetch_events ::
  "'n web_env \<Rightarrow> web_fetch_tool \<Rightarrow> string \<Rightarrow> string \<Rightarrow> int option \<Rightarrow> 'n net \<Rightarrow> net_event list" where
  "fetch_events env self url extractMode maxChars s =
     drop (length (trace s)) (trace (snd (web_fetch_execute env self url extractMode maxChars s)))"

definition redirect_hops :: "net_event list \<Rightarrow> nat" where
  "redirect_hops tr = count_requests tr - 1"

text \<open>
  Every request has its own validation: reading the log from the left, a request of \<open>u\<close>
  is allowed only when the event just before it is a validation of \<open>u\<close> that succeeded.
\<close>

datatype guard = Idle | Cleared string | Violated

fun guard_step :: "guard \<Rightarrow> net_event \<Rightarrow> guard" where
  "guard_step Violated e = Violated"
| "guard_step g (Validated u ok) = (if ok then Cleared u else Idle)"
| "guard_step Idle (Requested u) = Violated"
| "guard_step (Cleared v) (Requested u) = (if u = v then Idle else Violated)"

definition requests_validated :: "net_event list \<Rightarrow> bool" where
  "requests_validated tr = (foldl guard_step Idle tr \<noteq> Violated)"

text \<open>
  A chain of \<open>k\<close> redirects starting at \<open>url\<close>: the request of \<open>url\<close> is answered by a
  redirect whose Location passes validation, and from there a chain of \<open>k - 1\<close> follows.
\<close>

fun redirect_chain :: "'n web_env \<Rightarrow> nat \<Rightarrow> string \<Rightarrow> 'n \<Rightarrow> bool" where
  "redirect_chain env 0 url n = True"
| "redirect_chain env (Suc k) url n =
     (case http_get env url USER_AGENT n of
        (Inl e, n1) \<Rightarrow> False
      | (Inr r, n1) \<Rightarrow>
          is_redirect_status (status_code r) \<and>
          (case headers r ''location'' of
             None \<Rightarrow> False
           | Some loc \<Rightarrow>
               loc \<noteq> [] \<and>
               (case validate_url env loc n1 of
                  ((ok, msg), n2) \<Rightarrow> ok \<and> redirect_chain env k loc n2)))"

text \<open>
  A redirect target that is private: the Location parses as an http or https URL with a
  host, and the host resolves to a list with an address inside \<open>PRIVATE_IP_RANGES\<close>.
\<close>

definition targets_private :: "'n web_env \<Rightarrow> string \<Rightarrow> 'n \<Rightarrow> bool" where
  "targets_private env loc n =
     (loc \<noteq> [] \<and>
      (case urlparse env loc of
         Inl e \<Rightarrow> False
       | Inr p \<Rightarrow>
           (scheme p = ''http'' \<or> scheme p = ''https'') \<and> netloc p \<noteq> [] \<and>
           (case hostname p of
              Inr (Some h) \<Rightarrow>
                h \<noteq> [] \<and>
                (case resolve_hostname env (lower h) n of
                   (Inr ips, n') \<Rightarrow> any_private env ips
                 | (Inl e, n') \<Rightarrow> False)
            | _ \<Rightarrow> False)))"

subsection \<open>A small network to run the fetch on\<close>

text \<open>
  Four hosts: \<open>public.example\<close> at a public address, whose page redirects to
  \<open>internal.example\<close> at 10.0.0.5; \<open>loop.example\<close>, whose page redirects to itself;
  \<open>odd.example\<close>, whose only address is a string \<open>ip_address\<close> rejects.
\<close>

definition sample_urlparse :: "string \<Rightarrow> exn + parsed_url" where
  "sample_urlparse url =
     (if url = ''http://public.example/'' then
        Inr \<lparr>scheme = ''http'', netloc = ''public.example'', hostname = Inr (Some ''public.example'')\<rparr>
      else if url = ''http://internal.example/'' then
        Inr \<lparr>scheme = ''http'', netloc = ''internal.example'', hostname = Inr (Some ''internal.example'')\<rparr>
      else if url = ''http://loop.example/'' then
        Inr \<lparr>scheme = ''http'', netloc = ''loop.example'', hostname = Inr (Some ''loop.example'')\<rparr>
      else if url = ''http://Odd.example/'' then
        Inr \<lparr>scheme = ''http'', netloc = ''Odd.example'', hostname = Inr (Some ''Odd.example'')\<rparr>
      else Inr \<lparr>scheme = [], netloc = [], hostname = Inr None\<rparr>)"

definition sample_ip_address :: "string \<Rightarrow> ip option" where
  "sample_ip_address a =
     (if a = ''93.184.216.34'' then Some (IP V4 (ipv4 93 184 216 34))
      else if a = ''10.0.0.5'' then Some (IP V4 (ipv4 10 0 0 5))
      else None)"

definition sample_getaddrinfo :: "string \<Rightarrow> unit \<Rightarrow> (exn + string list) \<times> unit" where
  "sample_getaddrinfo host n =
     (if host = ''public.example'' \<or> host = ''loop.example'' then
        (Inr [''93.184.216.34'', ''93.184.216.34''], n)
      else if host = ''internal.example'' then (Inr [''10.0.0.5''], n)
      else if host = ''odd.example'' then (Inr [''fe80::1%eth0''], n)
      else (Inl (Exn OSError ''Name or service not known''), n))"

definition redirect_to :: "string \<Rightarrow> string \<Rightarrow> response" where
  "redirect_to url loc =
     \<lparr>status_code = 302, headers = [''location'' \<mapsto> loc], body_text = [], response_url = url\<rparr>"

definition sample_http_get :: "string \<Rightarrow> string \<Rightarrow> unit \<Rightarrow> (exn + response) \<times> unit" where
  "sample_http_get url agent n =
     (if url = ''http://public.example/'' then (Inr (redirect_to url ''http://internal.example/''), n)
      else if url = ''http://loop.example/'' then (Inr (redirect_to url ''http://loop.example/''), n)
      else (Inr \<lparr>status_code = 200, headers = Map.empty, body_text = ''hello'',
                 response_url = url\<rparr>, n))"

definition sample_env :: "unit web_env" where
  "sample_env =
     \<lparr>urlparse = sample_urlparse, ip_address = sample_ip_address,
      getaddrinfo = sample_getaddrinfo, http_get = sample_http_get,
      raise_for_status = (\<lambda>r. None), json_pretty = (\<lambda>r. Inr (body_text r)),
      doc_summary = Inr, doc_title = (\<lambda>t. Inr []), to_markdown = id, strip_tags = id\<rparr>"

definition sample_tool :: web_fetch_tool where
  "sample_tool = \<lparr>max_chars = 50000\<rparr>"

definition fresh_net :: "unit net" where
  "fresh_net = \<lparr>trace = [], nstate = ()\<rparr>"


section \<open>registry.py: the tool registry\<close>

text \<open>
  JSON values, for tool arguments, tool schemas, chat messages and the reply of the
  consolidation prompt. A dictionary keeps its keys in insertion order. \<open>truthy\<close> is
  Python's truth value.
\<close>

datatype json =
    JNull | JBool bool | JInt int | JStr string | JList "json list"
  | JDict "(string \<times> json) list"

fun truthy :: "json \<Rightarrow> bool" where
  "truthy JNull = False"
| "truthy (JBool b) = b"
| "truthy (JInt i) = (i \<noteq> 0)"
| "truthy (JStr s) = (s \<noteq> [])"
| "truthy (JList xs) = (xs \<noteq> [])"
| "truthy (JDict kvs) = (kvs \<noteq> [])"

type_synonym params = "(string \<times> json) list"

text \<open>
  Modelled from the spec: the class \<open>Tool\<close> of \<open>nanobot.agent.tools.base\<close> is not among the
  sources. A tool is the capability of section 6: its name, its advertised schema,
  \<open>validate(args)\<close> giving the list of violations, and \<open>execute(**args)\<close> giving text or
  raising. Tools act on the world outside the agent, of type \<open>'x\<close>. The validator is a
  function to a list, as the contract gives it; in the source its call stands before the
  \<open>try\<close>.
\<close>

record 'x tool =
  tool_name :: string
  to_schema :: json
  validate_params :: "params \<Rightarrow> string list"
  execute :: "params \<Rightarrow> 'x \<Rightarrow> (exn + string) \<times> 'x"

text \<open>\<open>ToolRegistry._tools\<close>: a dictionary from names to tools, in registration order.\<close>

type_synonym 'x registry = "(string \<times> 'x tool) list"

definition register :: "'x tool \<Rightarrow> 'x registry \<Rightarrow> 'x registry" where
  "register t reg = AList.update (tool_name t) t reg"

definition unregister :: "string \<Rightarrow> 'x registry \<Rightarrow> 'x registry" where
  "unregister name reg = AList.delete name reg"

definition registry_get :: "'x registry \<Rightarrow> string \<Rightarrow> 'x tool option" where
  "registry_get reg name = map_of reg name"

definition has :: "'x registry \<Rightarrow> string \<Rightarrow> bool" where
  "has reg name = (name \<in> fst ` set reg)"

definition get_definitions :: "'x registry \<Rightarrow> json list" where
  "get_definitions reg = map (\<lambda>(name, t). to_schema t) reg"

definition tool_names :: "'x registry \<Rightarrow> string list" where
  "tool_names reg = map fst reg"

definition not_found_message :: "string \<Rightarrow> string" where
  "not_found_message name = ''Error: Tool '' @ [CHR 0x27] @ name @ [CHR 0x27] @ '' not found''"

definition invalid_parameters_message :: "string \<Rightarrow> string list \<Rightarrow> string" where
  "invalid_parameters_message name errors =
     ''Error: Invalid parameters for tool '' @ [CHR 0x27] @ name @ [CHR 0x27] @ '': ''
       @ join ''; '' errors"

definition execution_error_message :: "string \<Rightarrow> exn \<Rightarrow> string" where
  "execution_error_message name e = ''Error executing '' @ name @ '': '' @ str_exn e"

text \<open>
  \<open>ToolRegistry.execute\<close>. The result is \<open>Inr\<close> of the returned string, or \<open>Inl\<close> of an
  exception that leaves the method.
\<close>

definition registry_execute ::
  "'x registry \<Rightarrow> string \<Rightarrow> params \<Rightarrow> 'x \<Rightarrow> (exn + string) \<times> 'x" where
  "registry_execute reg name ps x =
     (case map_of reg name of
        None \<Rightarrow> (Inr (not_found_message name), x)
      | Some t \<Rightarrow>
          (let errors = validate_params t ps
           in if errors \<noteq> [] then (Inr (invalid_parameters_message name errors), x)
              else
                (case execute t ps x of
                   (Inr out, x') \<Rightarrow> (Inr out, x')
                 | (Inl e, x') \<Rightarrow> (Inr (execution_error_message name e), x'))))"

subsection \<open>A registry to run it on\<close>

text \<open>
  One tool, \<open>divide\<close>, on a world that counts the executions: it needs the integer
  arguments \<open>a\<close> and \<open>b\<close>, reports each one that is missing, and raises on \<open>b = 0\<close>.
\<close>

definition divide_validate :: "params \<Rightarrow> string list" where
  "divide_validate ps =
     (case map_of ps ''a'' of Some (JInt a) \<Rightarrow> [] | _ \<Rightarrow> [''a must be an integer''])
     @ (case map_of ps ''b'' of Some (JInt b) \<Rightarrow> [] | _ \<Rightarrow> [''b must be an integer''])"

definition divide_execute :: "params \<Rightarrow> nat \<Rightarrow> (exn + string) \<times> nat" where
  "divide_execute ps x =
     (case (map_of ps ''a'', map_of ps ''b'') of
        (Some (JInt a), Some (JInt b)) \<Rightarrow>
          if b = 0 then (Inl (Exn OtherException ''division by zero''), Suc x)
          else (Inr (str_int (a div b)), Suc x)
      | _ \<Rightarrow> (Inl (Exn TypeError ''missing argument''), Suc x))"

definition divide_tool :: "nat tool" where
  "divide_tool =
     \<lparr>tool_name = ''divide'', to_schema = JDict [(''name'', JStr ''divide'')],
      validate_params = divide_validate, execute = divide_execute\<rparr>"

definition sample_registry :: "nat registry" where
  "sample_registry = register divide_tool []"


section \<open>loop.py: the agent loop\<close>

subsection \<open>Messages, sessions and the collaborators' data\<close>

text \<open>
  Modelled from the spec: \<open>InboundMessage\<close> and \<open>OutboundMessage\<close> of \<open>nanobot.bus.events\<close>
  are not among the sources. Section 3 gives their fields; the session key of an inbound
  message is derived from its channel and chat id.
\<close>

record inbound_message =
  channel :: string
  sender_id :: string
  chat_id :: string
  content :: string
  media :: "string list"
  metadata :: "(string \<times> json) list"

record outbound_message =
  out_channel :: string
  out_chat_id :: string
  out_content :: string
  out_metadata :: "(string \<times> json) list"

definition session_key_of :: "inbound_message \<Rightarrow> string" where
  "session_key_of msg = channel msg @ '':'' @ chat_id msg"

text \<open>
  Modelled from the spec: \<open>Session\<close> of \<open>nanobot.session.manager\<close> is not among the sources.
  Section 3: a key, the ordered message records (role, content, optional tool usage,
  timestamp) and the cursor \<open>last_consolidated\<close>; the sequence is append-only except for
  \<open>clear\<close>, which also resets the cursor to zero.
\<close>

record session_message =
  role :: string
  msg_content :: string
  timestamp :: "string option"
  tools_used :: "string list option"

record session =
  key :: string
  messages :: "session_message list"
  last_consolidated :: int

definition new_session :: "string \<Rightarrow> session" where
  "new_session k = \<lparr>key = k, messages = [], last_consolidated = 0\<rparr>"

definition session_clear :: "session \<Rightarrow> session" where
  "session_clear s = s\<lparr>messages := [], last_consolidated := 0\<rparr>"

definition session_add_message ::
  "string \<Rightarrow> string \<Rightarrow> string list option \<Rightarrow> string \<Rightarrow> session \<Rightarrow> session" where
  "session_add_message r c used stamp s =
     s\<lparr>messages := messages s
          @ [\<lparr>role = r, msg_content = c, timestamp = Some stamp, tools_used = used\<rparr>]\<rparr>"

text \<open>
  Modelled from the spec: the provider's reply of section 6,
  \<open>response{content, tool_calls[], reasoning?, has_tool_calls}\<close>, and a tool call of
  section 3 (id, tool name, argument map).
\<close>

record tool_call =
  call_id :: string
  call_name :: string
  arguments :: params

record llm_response =
  resp_content :: "string option"
  tool_calls :: "tool_call list"
  reasoning_content :: "string option"
  has_tool_calls :: bool

text \<open>
  What \<open>provider.chat\<close> is called with: the message list, the tool definitions (absent in
  the consolidation call), the model and the token budget (absent in the consolidation
  call). The sampling temperature, a constant of the agent, is passed along unchanged and
  left out here.
\<close>

record chat_request =
  req_messages :: "json list"
  req_tools :: "json list option"
  req_model :: string
  req_max_tokens :: "int option"

text \<open>
  The agent's configuration and the collaborators it calls, as parameters; \<open>'x\<close> is the
  world outside the agent (provider, tools, files, clock).
  \<^item> \<open>chat\<close>: \<open>LLMProvider.chat\<close>;
  \<^item> \<open>build_messages\<close>, \<open>add_assistant_message\<close>, \<open>add_tool_result\<close>: \<open>ContextBuilder\<close>;
  \<^item> \<open>get_history\<close>: \<open>Session.get_history(max_messages)\<close>;
  \<^item> \<open>set_context\<close>: \<open>set_context(channel, chat_id)\<close> of the tool registered under a name;
  \<^item> \<open>json_dumps\<close>: \<open>json.dumps\<close>; \<open>json_repair_loads\<close>: \<open>json_repair.loads\<close>;
  \<^item> \<open>now\<close>: the clock \<open>Session.add_message\<close> stamps a message with;
  \<^item> \<open>connect_mcp_servers\<close>: \<open>nanobot.agent.tools.mcp.connect_mcp_servers\<close>, which may
    register tools.
\<close>

record 'x agent =
  model :: string
  max_iterations :: int
  max_tokens :: int
  memory_window :: int
  has_mcp_servers :: bool
  chat :: "chat_request \<Rightarrow> 'x \<Rightarrow> (exn + llm_response) \<times> 'x"
  build_messages ::
    "json list \<Rightarrow> string \<Rightarrow> string list option \<Rightarrow> string \<Rightarrow> string \<Rightarrow> 'x \<Rightarrow> json list"
  add_assistant_message ::
    "json list \<Rightarrow> string option \<Rightarrow> json list \<Rightarrow> string option \<Rightarrow> json list"
  add_tool_result :: "json list \<Rightarrow> string \<Rightarrow> string \<Rightarrow> string \<Rightarrow> json list"
  get_history :: "session \<Rightarrow> int \<Rightarrow> json list"
  set_context :: "string \<Rightarrow> string \<Rightarrow> string \<Rightarrow> 'x \<Rightarrow> 'x"
  json_dumps :: "json \<Rightarrow> string"
  json_repair_loads :: "string \<Rightarrow> exn + json"
  now :: "'x \<Rightarrow> string"
  connect_mcp_servers :: "'x registry \<Rightarrow> 'x \<Rightarrow> (exn + 'x registry) \<times> 'x"

text \<open>
  A detached task: \<open>_consolidate_memory(session)\<close> on the live session object, or the
  closure \<open>_consolidate_and_cleanup\<close> of the \<open>/new\<close> branch, which holds the session
  object (for its key) and the copied message list.
\<close>

datatype job = ConsolidateLive nat | ConsolidateAndCleanup nat "session_message list"

text \<open>
  The state the agent works on.
  \<^item> \<open>heap\<close>, \<open>next_addr\<close>: the \<open>Session\<close> objects, by address; two references to one
    object are one address;
  \<^item> \<open>cache\<close>, \<open>disk\<close>: the session manager's cache of live objects and the saved sessions;
  \<^item> \<open>long_term\<close>, \<open>history_log\<close>: the memory store's MEMORY.md and the entries of HISTORY.md;
  \<^item> \<open>outbound_queue\<close>: what \<open>bus.publish_outbound\<close> has been given;
  \<^item> \<open>background_tasks\<close>: the detached tasks created and not yet run;
  \<^item> \<open>chat_log\<close>: every call of \<open>provider.chat\<close> by the agent with its outcome, in order;
  \<^item> \<open>logged\<close>: the \<open>logger.warning\<close> and \<open>logger.error\<close> lines (debug and info lines are
    left out).
  \<open>chat_log\<close> and \<open>logged\<close> are written, never read.
\<close>

record 'x world =
  ext :: 'x
  tools :: "'x registry"
  mcp_connected :: bool
  heap :: "nat \<Rightarrow> session"
  next_addr :: nat
  cache :: "string \<rightharpoonup> nat"
  disk :: "string \<rightharpoonup> session"
  long_term :: string
  history_log :: "string list"
  outbound_queue :: "outbound_message list"
  background_tasks :: "job list"
  chat_log :: "(chat_request \<times> (exn + llm_response)) list"
  logged :: "(string \<times> string) list"

definition log_warning :: "string \<Rightarrow> 'x world \<Rightarrow> 'x world" where
  "log_warning line w = w\<lparr>logged := logged w @ [(''WARNING'', line)]\<rparr>"

definition log_error :: "string \<Rightarrow> 'x world \<Rightarrow> 'x world" where
  "log_error line w = w\<lparr>logged := logged w @ [(''ERROR'', line)]\<rparr>"

text \<open>
  Modelled from the spec: the message bus of \<open>nanobot.bus.queue\<close> is not among the
  sources. Section 6: \<open>publish_outbound(message)\<close> delivers a reply.
\<close>

definition publish_outbound :: "outbound_message \<Rightarrow> 'x world \<Rightarrow> 'x world" where
  "publish_outbound out w = w\<lparr>outbound_queue := outbound_queue w @ [out]\<rparr>"

text \<open>
  Modelled from the spec: \<open>SessionManager\<close> of \<open>nanobot.session.manager\<close> is not among the
  sources. Section 6: \<open>get_or_create(key)\<close>, \<open>save(session)\<close>, \<open>invalidate(key)\<close>.
  \<open>get_or_create\<close> gives the cached object, or a new object holding the saved session of
  that key, or an empty one.
\<close>

definition get_or_create :: "string \<Rightarrow> 'x world \<Rightarrow> nat \<times> 'x world" where
  "get_or_create k w =
     (case cache w k of
        Some a \<Rightarrow> (a, w)
      | None \<Rightarrow>
          (let s = (case disk w k of Some saved \<Rightarrow> saved | None \<Rightarrow> new_session k);
               a = next_addr w
           in (a, w\<lparr>heap := (heap w)(a := s), next_addr := Suc a, cache := (cache w)(k \<mapsto> a)\<rparr>)))"

definition save :: "nat \<Rightarrow> 'x world \<Rightarrow> 'x world" where
  "save a w = w\<lparr>disk := (disk w)(key (heap w a) \<mapsto> heap w a)\<rparr>"

definition invalidate :: "string \<Rightarrow> 'x world \<Rightarrow> 'x world" where
  "invalidate k w = w\<lparr>cache := (cache w)(k := None)\<rparr>"

definition clear :: "nat \<Rightarrow> 'x world \<Rightarrow> 'x world" where
  "clear a w = w\<lparr>heap := (heap w)(a := session_clear (heap w a))\<rparr>"

definition add_message ::
  "'x agent \<Rightarrow> nat \<Rightarrow> string \<Rightarrow> string \<Rightarrow> string list option \<Rightarrow> 'x world \<Rightarrow> 'x world" where
  "add_message agent a r c used w =
     w\<lparr>heap := (heap w)(a := session_add_message r c used (now agent (ext w)) (heap w a))\<rparr>"

text \<open>
  Modelled from the spec: \<open>MemoryStore\<close> of \<open>nanobot.agent.memory\<close> is not among the
  sources. Section 6: \<open>read_long_term() \<rightarrow> text\<close>, \<open>write_long_term(text)\<close>,
  \<open>append_history(entry)\<close>. Both writers take text; given a value that is not a string they
  raise, as writing it to a text file does.
\<close>

definition read_long_term :: "'x world \<Rightarrow> string" where
  "read_long_term w = long_term w"

definition write_long_term :: "json \<Rightarrow> 'x world \<Rightarrow> exn + 'x world" where
  "write_long_term v w =
     (case v of
        JStr body \<Rightarrow> Inr (w\<lparr>long_term := body\<rparr>)
      | _ \<Rightarrow> Inl (Exn TypeError ''data must be str''))"

definition append_history :: "json \<Rightarrow> 'x world \<Rightarrow> exn + 'x world" where
  "append_history v w =
     (case v of
        JStr entry \<Rightarrow> Inr (w\<lparr>history_log := history_log w @ [entry]\<rparr>)
      | _ \<Rightarrow> Inl (Exn TypeError ''entry must be str''))"

text \<open>\<open>asyncio.create_task\<close>, with the task kept in \<open>_background_tasks\<close>.\<close>

definition create_task :: "job \<Rightarrow> 'x world \<Rightarrow> 'x world" where
  "create_task j w = w\<lparr>background_tasks := background_tasks w @ [j]\<rparr>"

text \<open>A call of the provider by the agent: the provider answers and the call is logged.\<close>

definition provider_chat ::
  "'x agent \<Rightarrow> chat_request \<Rightarrow> 'x world \<Rightarrow> (exn + llm_response) \<times> 'x world" where
  "provider_chat agent req w =
     (case chat agent req (ext w) of
        (res, x') \<Rightarrow> (res, w\<lparr>ext := x', chat_log := chat_log w @ [(req, res)]\<rparr>))"

subsection \<open>More of Python's strings\<close>

definition is_space :: "char \<Rightarrow> bool" where
  "is_space c =
     (c \<in> set [CHR 0x09, CHR 0x0A, CHR 0x0B, CHR 0x0C, CHR 0x0D,
               CHR 0x1C, CHR 0x1D, CHR 0x1E, CHR 0x1F, CHR 0x20])"

definition strip :: "string \<Rightarrow> string" where
  "strip s = rev (dropWhile is_space (rev (dropWhile is_space s)))"

text \<open>\<open>s.split(sep, 1)\<close> for a one-character separator: the part before and the part after.\<close>

definition split_once :: "char \<Rightarrow> string \<Rightarrow> (string \<times> string) option" where
  "split_once sep s =
     (case dropWhile (\<lambda>c. c \<noteq> sep) s of
        [] \<Rightarrow> None
      | c # rest \<Rightarrow> Some (takeWhile (\<lambda>c. c \<noteq> sep) s, rest))"

text \<open>\<open>s.rsplit(sep, 1)[0]\<close>: the part before the last occurrence of \<open>sep\<close>, or all of \<open>s\<close>.\<close>

definition rsplit_head :: "string \<Rightarrow> string \<Rightarrow> string" where
  "rsplit_head sep s =
     (case filter (\<lambda>i. prefix sep (drop i s)) (rev [0..<Suc (length s)]) of
        [] \<Rightarrow> s
      | i # others \<Rightarrow> take i s)"

definition fence :: string where
  "fence = [CHR 0x60, CHR 0x60, CHR 0x60]"

subsection \<open>The iteration loop\<close>

text \<open>\<open>_set_tool_context\<close>: the three tools that take routing information, when registered.\<close>

definition set_tool_context :: "'x agent \<Rightarrow> string \<Rightarrow> string \<Rightarrow> 'x world \<Rightarrow> 'x world" where
  "set_tool_context agent ch cid w =
     foldl (\<lambda>w' name. if map_of (tools w') name \<noteq> None
                       then w'\<lparr>ext := set_context agent name ch cid (ext w')\<rparr> else w')
       w [''message'', ''spawn'', ''cron'']"

definition tool_call_dict :: "'x agent \<Rightarrow> tool_call \<Rightarrow> json" where
  "tool_call_dict agent tc =
     JDict [(''id'', JStr (call_id tc)), (''type'', JStr ''function''),
            (''function'', JDict [(''name'', JStr (call_name tc)),
                                  (''arguments'', JStr (json_dumps agent (JDict (arguments tc))))])]"

definition reflect_message :: json where
  "reflect_message =
     JDict [(''role'', JStr ''user''),
            (''content'', JStr ''Reflect on the results and decide next steps.'')]"

text \<open>The \<open>for\<close> loop over the tool calls of one response, in the order returned.\<close>

fun run_tool_calls ::
  "'x agent \<Rightarrow> tool_call list \<Rightarrow> json list \<Rightarrow> string list \<Rightarrow> 'x world
     \<Rightarrow> (exn + json list \<times> string list) \<times> 'x world" where
  "run_tool_calls agent [] msgs used w = (Inr (msgs, used), w)"
| "run_tool_calls agent (tc # tcs) msgs used w =
     (case registry_execute (tools w) (call_name tc) (arguments tc) (ext w) of
        (Inl e, x') \<Rightarrow> (Inl e, w\<lparr>ext := x'\<rparr>)
      | (Inr result, x') \<Rightarrow>
          run_tool_calls agent tcs
            (add_tool_result agent msgs (call_id tc) (call_name tc) result)
            (used @ [call_name tc]) (w\<lparr>ext := x'\<rparr>))"

text \<open>The arguments of \<open>provider.chat\<close> in the loop.\<close>

definition loop_request :: "'x agent \<Rightarrow> json list \<Rightarrow> 'x world \<Rightarrow> chat_request" where
  "loop_request agent msgs w =
     \<lparr>req_messages = msgs, req_tools = Some (get_definitions (tools w)),
      req_model = model agent, req_max_tokens = Some (max_tokens agent)\<rparr>"

text \<open>
  The \<open>while\<close> loop of \<open>_run_agent_loop\<close>, entered with the current \<open>iteration\<close>,
  \<open>messages\<close>, and \<open>tools_used\<close>; \<open>final_content\<close> is still \<open>None\<close> whenever it is entered.
\<close>

function agent_loop_from ::
  "'x agent \<Rightarrow> int \<Rightarrow> json list \<Rightarrow> string list \<Rightarrow> 'x world
     \<Rightarrow> (exn + string option \<times> string list) \<times> 'x world" where
  "agent_loop_from agent iteration msgs used w =
     (if iteration < max_iterations agent then
        (case provider_chat agent (loop_request agent msgs w) w of
           (Inl e, w1) \<Rightarrow> (Inl e, w1)
         | (Inr response, w1) \<Rightarrow>
             if has_tool_calls response then
               (case run_tool_calls agent (tool_calls response)
                       (add_assistant_message agent msgs (resp_content response)
                          (map (tool_call_dict agent) (tool_calls response))
                          (reasoning_content response))
                       used w1 of
                  (Inl e, w2) \<Rightarrow> (Inl e, w2)
                | (Inr (msgs2, used2), w2) \<Rightarrow>
                    agent_loop_from agent (iteration + 1) (msgs2 @ [reflect_message]) used2 w2)
             else (Inr (resp_content response, used), w1))
      else (Inr (None, used), w))"
  by pat_completeness auto
termination
  by (relation "measure (\<lambda>(agent, iteration, msgs, used, w). nat (max_iterations agent - iteration))")
    auto

definition run_agent_loop ::
  "'x agent \<Rightarrow> json list \<Rightarrow> 'x world \<Rightarrow> (exn + string option \<times> string list) \<times> 'x world" where
  "run_agent_loop agent initial_messages w = agent_loop_from agent 0 initial_messages [] w"

subsection \<open>Memory consolidation\<close>

text \<open>
  \<open>_consolidate_memory\<close> up to the transcript: the messages to summarise and
  \<open>keep_count\<close>, or \<open>None\<close> where the method returns at once.
\<close>

definition select_old_messages ::
  "'x agent \<Rightarrow> session \<Rightarrow> bool \<Rightarrow> (session_message list \<times> int) option" where
  "select_old_messages agent s archive_all =
     (if archive_all then Some (messages s, 0)
      else
        (let keep_count = memory_window agent div 2
         in if int (length (messages s)) \<le> keep_count then None
            else if int (length (messages s)) - last_consolidated s \<le> 0 then None
            else
              (let old_messages = py_slice (messages s) (last_consolidated s) (- keep_count)
               in if old_messages = [] then None else Some (old_messages, keep_count))))"

definition transcript_line :: "session_message \<Rightarrow> string" where
  "transcript_line m =
     ''['' @ py_slice_to (case timestamp m of Some t \<Rightarrow> t | None \<Rightarrow> ''?'') 16 @ ''] ''
       @ upper (role m)
       @ (case tools_used m of
            None \<Rightarrow> []
          | Some used \<Rightarrow> if used = [] then [] else '' [tools: '' @ join '', '' used @ '']'')
       @ '': '' @ msg_content m"

definition conversation_of :: "session_message list \<Rightarrow> string" where
  "conversation_of old_messages =
     join [CHR 0x0A] (map transcript_line (filter (\<lambda>m. msg_content m \<noteq> []) old_messages))"

definition consolidation_prompt :: "string \<Rightarrow> string \<Rightarrow> string" where
  \<open>consolidation_prompt current_memory conversation =
     join [CHR 0x0A]
       [''You are a memory consolidation agent. Process this conversation and return a JSON object with exactly two keys:'',
        [],
        ''1. "history_entry": A paragraph (2-5 sentences) summarizing the key events/decisions/topics. Start with a timestamp like [YYYY-MM-DD HH:MM]. Include enough detail to be useful when found by grep search later.'',
        [],
        ''2. "memory_update": The updated long-term memory content. Add any new facts: user location, preferences, personal info, habits, project context, technical decisions, tools/services used. If nothing new, return the existing content unchanged.'',
        [],
        ''## Current Long-term Memory'',
        (if current_memory = [] then ''(empty)'' else current_memory),
        [],
        ''## Conversation to Process'',
        conversation,
        [],
        ''Respond with ONLY valid JSON, no markdown fences.'']\<close>

definition consolidation_request :: "'x agent \<Rightarrow> string \<Rightarrow> session_message list \<Rightarrow> chat_request" where
  "consolidation_request agent current_memory old_messages =
     \<lparr>req_messages =
        [JDict [(''role'', JStr ''system''),
                (''content'', JStr ''You are a memory consolidation agent. Respond only with valid JSON.'')],
         JDict [(''role'', JStr ''user''),
                (''content'', JStr (consolidation_prompt current_memory
                                      (conversation_of old_messages)))]],
      req_tools = None, req_model = model agent, req_max_tokens = None\<rparr>"

definition dict_get :: "(string \<times> json) list \<Rightarrow> string \<Rightarrow> json" where
  "dict_get d k = (case map_of d k of Some v \<Rightarrow> v | None \<Rightarrow> JNull)"

definition set_cursor :: "nat \<Rightarrow> int \<Rightarrow> 'x world \<Rightarrow> 'x world" where
  "set_cursor a c w = w\<lparr>heap := (heap w)(a := (heap w a)\<lparr>last_consolidated := c\<rparr>)\<rparr>"

text \<open>
  The text handed to \<open>json_repair.loads\<close>: the stripped content, without its markdown
  fence when it starts with one.
\<close>

definition stripped_content :: "llm_response \<Rightarrow> string" where
  "stripped_content response =
     strip (case resp_content response of Some c \<Rightarrow> c | None \<Rightarrow> [])"

definition unfenced :: "string \<Rightarrow> string" where
  "unfenced raw =
     (if prefix fence raw
      then strip (rsplit_head fence
                   (case split_once (CHR 0x0A) raw of None \<Rightarrow> raw | Some (first, rest) \<Rightarrow> rest))
      else raw)"

text \<open>
  The body of \<open>try\<close> after the provider has answered. The first component is the
  exception raised inside it, if any; the world holds what was done before.
\<close>

definition apply_response ::
  "'x agent \<Rightarrow> nat \<Rightarrow> bool \<Rightarrow> int \<Rightarrow> string \<Rightarrow> llm_response \<Rightarrow> 'x world
     \<Rightarrow> exn option \<times> 'x world" where
  "apply_response agent a archive_all keep_count current_memory response w =
     (let raw = stripped_content response
      in if raw = [] then
           (None, log_warning ''Memory consolidation: LLM returned empty response, skipping'' w)
         else
           (let body = unfenced raw
            in case json_repair_loads agent body of
                 Inl e \<Rightarrow> (Some e, w)
               | Inr (JDict result) \<Rightarrow>
                   (case (if truthy (dict_get result ''history_entry'')
                          then append_history (dict_get result ''history_entry'') w
                          else Inr w) of
                      Inl e \<Rightarrow> (Some e, w)
                    | Inr w1 \<Rightarrow>
                        (case (if truthy (dict_get result ''memory_update'')
                                  \<and> dict_get result ''memory_update'' \<noteq> JStr current_memory
                               then write_long_term (dict_get result ''memory_update'') w1
                               else Inr w1) of
                           Inl e \<Rightarrow> (Some e, w1)
                         | Inr w2 \<Rightarrow>
                             (None,
                              set_cursor a
                                (if archive_all then 0
                                 else int (length (messages (heap w2 a))) - keep_count) w2)))
               | Inr other \<Rightarrow>
                   (None,
                    log_warning (''Memory consolidation: unexpected response type, skipping. Response: ''
                                   @ py_slice_to body 200) w)))"

text \<open>\<open>_consolidate_memory(session, archive_all)\<close> on the session object at \<open>a\<close>.\<close>

definition consolidate_memory :: "'x agent \<Rightarrow> nat \<Rightarrow> bool \<Rightarrow> 'x world \<Rightarrow> 'x world" where
  "consolidate_memory agent a archive_all w =
     (case select_old_messages agent (heap w a) archive_all of
        None \<Rightarrow> w
      | Some (old_messages, keep_count) \<Rightarrow>
          (let current_memory = read_long_term w
           in case provider_chat agent
                     (consolidation_request agent current_memory old_messages) w of
                (Inl e, w1) \<Rightarrow> log_error (''Memory consolidation failed: '' @ str_exn e) w1
              | (Inr response, w1) \<Rightarrow>
                  (case apply_response agent a archive_all keep_count current_memory response w1 of
                     (Some e, w2) \<Rightarrow> log_error (''Memory consolidation failed: '' @ str_exn e) w2
                   | (None, w2) \<Rightarrow> w2)))"

text \<open>
  Running a detached task. The closure of \<open>/new\<close> makes a temporary session with the key
  of the session it holds and the copied messages, and archives all of it.
\<close>

definition run_job :: "'x agent \<Rightarrow> job \<Rightarrow> 'x world \<Rightarrow> 'x world" where
  "run_job agent j w =
     (case j of
        ConsolidateLive a \<Rightarrow> consolidate_memory agent a False w
      | ConsolidateAndCleanup a messages_to_archive \<Rightarrow>
          (let t = next_addr w;
               temp_session = (new_session (key (heap w a)))\<lparr>messages := messages_to_archive\<rparr>
           in consolidate_memory agent t True
                (w\<lparr>heap := (heap w)(t := temp_session), next_addr := Suc t\<rparr>)))"

definition run_background_task :: "'x agent \<Rightarrow> 'x world \<Rightarrow> 'x world" where
  "run_background_task agent w =
     (case background_tasks w of
        [] \<Rightarrow> w
      | j # rest \<Rightarrow> run_job agent j (w\<lparr>background_tasks := rest\<rparr>))"

subsection \<open>Processing one message\<close>

definition NEW_SESSION_REPLY :: string where
  "NEW_SESSION_REPLY = ''New session started. Memory consolidation in progress.''"

definition HELP_REPLY :: string where
  "HELP_REPLY =
     [CHR 0xC3, CHR 0xB0, CHR 0xC5, CHR 0xB8, CHR 0xCB, CHR 0x86] @ '' nanobot commands:''
     @ [CHR 0x0A] @ ''/new '' @ [CHR 0xC3, CHR 0xA2, CHR 0xE2, CHR 0x82, CHR 0xAC, CHR 0xE2, CHR 0x80, CHR 0x9D]
     @ '' Start a new conversation''
     @ [CHR 0x0A] @ ''/help '' @ [CHR 0xC3, CHR 0xA2, CHR 0xE2, CHR 0x82, CHR 0xAC, CHR 0xE2, CHR 0x80, CHR 0x9D]
     @ '' Show available commands''"

definition NO_RESPONSE_FALLBACK :: string where
  "NO_RESPONSE_FALLBACK = ''I've completed processing but have no response to give.''"

definition SYSTEM_FALLBACK :: string where
  "SYSTEM_FALLBACK = ''Background task completed.''"

definition APOLOGY :: string where
  "APOLOGY = ''Sorry, I encountered an internal error. Please try again.''"

text \<open>\<open>_process_system_message\<close>.\<close>

definition process_system_message ::
  "'x agent \<Rightarrow> inbound_message \<Rightarrow> 'x world \<Rightarrow> (exn + outbound_message option) \<times> 'x world" where
  "process_system_message agent msg w =
     (let (origin_channel, origin_chat_id) =
            (case split_once (CHR '':'') (chat_id msg) of
               Some (first, rest) \<Rightarrow> (first, rest)
             | None \<Rightarrow> (''cli'', chat_id msg));
          (a, w1) = get_or_create (origin_channel @ '':'' @ origin_chat_id) w;
          w2 = set_tool_context agent origin_channel origin_chat_id w1;
          initial_messages =
            build_messages agent (get_history agent (heap w2 a) (memory_window agent))
              (content msg) None origin_channel origin_chat_id (ext w2)
      in case run_agent_loop agent initial_messages w2 of
           (Inl e, w3) \<Rightarrow> (Inl e, w3)
         | (Inr (final_content, used), w3) \<Rightarrow>
             (let reply = (case final_content of None \<Rightarrow> SYSTEM_FALLBACK | Some c \<Rightarrow> c);
                  w4 = add_message agent a ''user''
                         (''[System: '' @ sender_id msg @ ''] '' @ content msg) None w3;
                  w5 = add_message agent a ''assistant'' reply None w4;
                  w6 = save a w5
              in (Inr (Some \<lparr>out_channel = origin_channel, out_chat_id = origin_chat_id,
                               out_content = reply, out_metadata = []\<rparr>), w6)))"

text \<open>\<open>_process_message(msg, session_key)\<close>.\<close>

definition process_message ::
  "'x agent \<Rightarrow> inbound_message \<Rightarrow> string option \<Rightarrow> 'x world
     \<Rightarrow> (exn + outbound_message option) \<times> 'x world" where
  "process_message agent msg session_key w =
     (if channel msg = ''system'' then process_system_message agent msg w
      else
        (let k = (case session_key of
                    None \<Rightarrow> session_key_of msg
                  | Some given \<Rightarrow> if given = [] then session_key_of msg else given);
             (a, w1) = get_or_create k w;
             cmd = lower (strip (content msg))
         in if cmd = ''/new'' then
              (let messages_to_archive = messages (heap w1 a);
                   w2 = clear a w1;
                   w3 = save a w2;
                   w4 = invalidate (key (heap w3 a)) w3;
                   w5 = create_task (ConsolidateAndCleanup a messages_to_archive) w4
               in (Inr (Some \<lparr>out_channel = channel msg, out_chat_id = chat_id msg,
                                out_content = NEW_SESSION_REPLY, out_metadata = []\<rparr>), w5))
            else if cmd = ''/help'' then
              (Inr (Some \<lparr>out_channel = channel msg, out_chat_id = chat_id msg,
                            out_content = HELP_REPLY, out_metadata = []\<rparr>), w1)
            else
              (let w2 = (if int (length (messages (heap w1 a))) > memory_window agent
                         then create_task (ConsolidateLive a) w1 else w1);
                   w3 = set_tool_context agent (channel msg) (chat_id msg) w2;
                   initial_messages =
                     build_messages agent (get_history agent (heap w3 a) (memory_window agent))
                       (content msg) (if media msg = [] then None else Some (media msg))
                       (channel msg) (chat_id msg) (ext w3)
               in case run_agent_loop agent initial_messages w3 of
                    (Inl e, w4) \<Rightarrow> (Inl e, w4)
                  | (Inr (final_content, used), w4) \<Rightarrow>
                      (let reply = (case final_content of
                                      None \<Rightarrow> NO_RESPONSE_FALLBACK | Some c \<Rightarrow> c);
                           w5 = add_message agent a ''user'' (content msg) None w4;
                           w6 = add_message agent a ''assistant'' reply
                                  (if used = [] then None else Some used) w5;
                           w7 = save a w6
                       in (Inr (Some \<lparr>out_channel = channel msg, out_chat_id = chat_id msg,
                                        out_content = reply, out_metadata = metadata msg\<rparr>),
                           w7)))))"

subsection \<open>The run loop\<close>

text \<open>\<open>_connect_mcp\<close>: once, and only when servers are configured.\<close>

definition connect_mcp :: "'x agent \<Rightarrow> 'x world \<Rightarrow> exn option \<times> 'x world" where
  "connect_mcp agent w =
     (if mcp_connected w \<or> \<not> has_mcp_servers agent then (None, w)
      else
        (case connect_mcp_servers agent (tools w) (ext w) of
           (Inl e, x') \<Rightarrow> (Some e, w\<lparr>mcp_connected := True, ext := x'\<rparr>)
         | (Inr reg, x') \<Rightarrow> (None, w\<lparr>mcp_connected := True, ext := x', tools := reg\<rparr>)))"

text \<open>
  One pass of the body of \<open>while self._running\<close>. \<open>polled\<close> is what
  \<open>asyncio.wait_for(self.bus.consume_inbound(), timeout=1.0)\<close> gave: a message, or \<open>None\<close>
  for the \<open>TimeoutError\<close> of an empty second. The first component is an exception that
  leaves the loop, if any.
\<close>

definition run_iteration ::
  "'x agent \<Rightarrow> inbound_message option \<Rightarrow> 'x world \<Rightarrow> exn option \<times> 'x world" where
  "run_iteration agent polled w =
     (case polled of
        None \<Rightarrow> (None, w)
      | Some msg \<Rightarrow>
          (case process_message agent msg None w of
             (Inr None, w1) \<Rightarrow> (None, w1)
           | (Inr (Some response), w1) \<Rightarrow> (None, publish_outbound response w1)
           | (Inl e, w1) \<Rightarrow>
               (None,
                publish_outbound
                  \<lparr>out_channel = channel msg, out_chat_id = chat_id msg,
                   out_content = APOLOGY, out_metadata = []\<rparr>
                  (log_error (''Error processing message: '' @ str_exn e) w1))))"

text \<open>
  The \<open>while\<close> loop over what the bus gives, pass by pass, until \<open>stop()\<close> has cleared
  \<open>_running\<close> (the end of the list) or an exception leaves the loop.
\<close>

fun run_loop :: "'x agent \<Rightarrow> inbound_message option list \<Rightarrow> 'x world \<Rightarrow> exn option \<times> 'x world" where
  "run_loop agent [] w = (None, w)"
| "run_loop agent (polled # later) w =
     (case run_iteration agent polled w of
        (Some e, w1) \<Rightarrow> (Some e, w1)
      | (None, w1) \<Rightarrow> run_loop agent later w1)"

definition run :: "'x agent \<Rightarrow> inbound_message option list \<Rightarrow> 'x world \<Rightarrow> exn option \<times> 'x world" where
  "run agent polls w =
     (case connect_mcp agent w of
        (Some e, w1) \<Rightarrow> (Some e, w1)
      | (None, w1) \<Rightarrow> run_loop agent polls w1)"

text \<open>\<open>process_direct\<close>.\<close>

definition process_direct ::
  "'x agent \<Rightarrow> string \<Rightarrow> string \<Rightarrow> string \<Rightarrow> string \<Rightarrow> 'x world \<Rightarrow> (exn + string) \<times> 'x world" where
  "process_direct agent text session_key ch cid w =
     (case connect_mcp agent w of
        (Some e, w1) \<Rightarrow> (Inl e, w1)
      | (None, w1) \<Rightarrow>
          (case process_message agent
                  \<lparr>channel = ch, sender_id = ''user'', chat_id = cid, content = text,
                   media = [], metadata = []\<rparr>
                  (Some session_key) w1 of
             (Inl e, w2) \<Rightarrow> (Inl e, w2)
           | (Inr None, w2) \<Rightarrow> (Inr [], w2)
           | (Inr (Some response), w2) \<Rightarrow> (Inr (out_content response), w2)))"

subsection \<open>Reading a run\<close>


text \<open>No logged call was answered by a terminal response, one without tool calls.\<close>

definition no_terminal_response :: "(chat_request \<times> (exn + llm_response)) list \<Rightarrow> bool" where
  "no_terminal_response calls =
     list_all (\<lambda>(req, res). case res of Inl e \<Rightarrow> True | Inr r \<Rightarrow> has_tool_calls r) calls"



text \<open>
  The outcome of the provider call of a consolidation run, as the job sees it: the call or
  the parsing failed (an exception, an empty response, a result that is not a
  dictionary); or it succeeded and both fields can be written.
\<close>

definition response_failed :: "'x agent \<Rightarrow> exn + llm_response \<Rightarrow> bool" where
  "response_failed agent res =
     (case res of
        Inl e \<Rightarrow> True
      | Inr response \<Rightarrow>
          stripped_content response = []
          \<or> (case json_repair_loads agent (unfenced (stripped_content response)) of
                Inl e \<Rightarrow> True
              | Inr (JDict result) \<Rightarrow> False
              | Inr other \<Rightarrow> True))"

definition writable :: "json \<Rightarrow> bool" where
  "writable v = (case v of JStr s \<Rightarrow> True | _ \<Rightarrow> \<not> truthy v)"

definition response_succeeded :: "'x agent \<Rightarrow> exn + llm_response \<Rightarrow> bool" where
  "response_succeeded agent res =
     (case res of
        Inl e \<Rightarrow> False
      | Inr response \<Rightarrow>
          stripped_content response \<noteq> []
          \<and> (case json_repair_loads agent (unfenced (stripped_content response)) of
                Inr (JDict result) \<Rightarrow>
                  writable (dict_get result ''history_entry'')
                  \<and> writable (dict_get result ''memory_update'')
              | _ \<Rightarrow> False))"

text \<open>Where a successful run puts the cursor.\<close>

definition cursor_target :: "'x agent \<Rightarrow> session \<Rightarrow> bool \<Rightarrow> int" where
  "cursor_target agent s archive_all =
     (if archive_all then 0 else int (length (messages s)) - memory_window agent div 2)"


text \<open>
  Two worlds that differ at most in the session objects, the memory store, the world
  outside and the two logs: the registry, the session manager's cache and saved sessions,
  the bus and the detached tasks are the same.
\<close>

definition same_surroundings :: "'x world \<Rightarrow> 'x world \<Rightarrow> bool" where
  "same_surroundings w w' =
     (tools w' = tools w \<and> mcp_connected w' = mcp_connected w \<and> next_addr w' = next_addr w
      \<and> cache w' = cache w \<and> disk w' = disk w \<and> outbound_queue w' = outbound_queue w
      \<and> background_tasks w' = background_tasks w)"





subsection \<open>An agent and a world to run it on\<close>



definition chat_raises :: "chat_request \<Rightarrow> nat \<Rightarrow> (exn + llm_response) \<times> nat" where
  "chat_raises req x = (Inl (Exn OtherException ''provider unreachable''), x)"

definition chat_replies :: "string \<Rightarrow> chat_request \<Rightarrow> nat \<Rightarrow> (exn + llm_response) \<times> nat" where
  "chat_replies reply req x =
     (Inr \<lparr>resp_content = Some reply, tool_calls = [], reasoning_content = None,
           has_tool_calls = False\<rparr>, x)"

definition sample_loads :: "string \<Rightarrow> exn + json" where
  "sample_loads body =
     (if body = ''SUMMARY'' then
        Inr (JDict [(''history_entry'', JStr ''[2026-01-01 10:00] Talked about tea.''),
                    (''memory_update'', JStr ''Likes tea.'')])
      else if body = ''LIST'' then Inr (JList [JInt 1])
      else Inl (Exn ValueError ''no JSON found''))"

definition user_turn :: "string \<Rightarrow> json" where
  "user_turn body = JDict [(''role'', JStr ''user''), (''content'', JStr body)]"

definition sample_agent ::
  "(chat_request \<Rightarrow> nat \<Rightarrow> (exn + llm_response) \<times> nat) \<Rightarrow> int \<Rightarrow> int \<Rightarrow> nat agent" where
  "sample_agent provider budget window =
     \<lparr>model = ''test-model'', max_iterations = budget, max_tokens = 4096,
      memory_window = window, has_mcp_servers = False, chat = provider,
      build_messages = (\<lambda>history current media ch cid x. history @ [user_turn current]),
      add_assistant_message = (\<lambda>msgs c calls reasoning.
         msgs @ [JDict [(''role'', JStr ''assistant''), (''tool_calls'', JList calls)]]),
      add_tool_result = (\<lambda>msgs cid name result.
         msgs @ [JDict [(''role'', JStr ''tool''), (''tool_call_id'', JStr cid),
                        (''name'', JStr name), (''content'', JStr result)]]),
      get_history = (\<lambda>s n. []),
      set_context = (\<lambda>name ch cid x. x),
      json_dumps = (\<lambda>j. ''{}''),
      json_repair_loads = sample_loads,
      now = (\<lambda>x. ''2026-01-01T10:00:00''),
      connect_mcp_servers = (\<lambda>reg x. (Inr reg, x))\<rparr>"

definition said :: "string \<Rightarrow> string \<Rightarrow> session_message" where
  "said r body =
     \<lparr>role = r, msg_content = body, timestamp = Some ''2026-01-01T10:00:00'', tools_used = None\<rparr>"

definition sample_world :: "nat world" where
  "sample_world =
     \<lparr>ext = 0, tools = sample_registry, mcp_connected = False,
      heap = (\<lambda>a. new_session []), next_addr = 0, cache = Map.empty, disk = Map.empty,
      long_term = [], history_log = [], outbound_queue = [], background_tasks = [],
      chat_log = [], logged = []\<rparr>"

text \<open>The world with one live session, \<open>cli:u1\<close> at address 0.\<close>

definition world_with :: "session_message list \<Rightarrow> int \<Rightarrow> nat world" where
  "world_with msgs cursor =
     sample_world\<lparr>heap := (\<lambda>a. new_session [])
                     (0 := \<lparr>key = ''cli:u1'', messages = msgs, last_consolidated = cursor\<rparr>),
                  next_addr := 1, cache := [''cli:u1'' \<mapsto> 0]\<rparr>"

definition from_user :: "string \<Rightarrow> inbound_message" where
  "from_user body =
     \<lparr>channel = ''cli'', sender_id = ''u1'', chat_id = ''u1'', content = body, media = [],
      metadata = []\<rparr>"

text \<open>A short conversation, for the consolidation runs.\<close>

definition two_messages :: "session_message list" where
  "two_messages = [said ''user'' ''I like tea'', said ''assistant'' ''Noted.'']"
section \<open>web.py: properties\<close>

declare fetch_with_redirect_validation.simps [simp del]

lemma client_get_trace:
  "client_get env url s = (r, s1) \<Longrightarrow> trace s1 = trace s @ [Requested url]"
  by (auto simp: client_get_def split: prod.splits)

lemma call_validate_url_trace:
  "call_validate_url env url s = ((ok, m), s1) \<Longrightarrow> trace s1 = trace s @ [Validated url ok]"
  by (auto simp: call_validate_url_def split: prod.splits)

lemma count_requests_append [simp]:
  "count_requests (xs @ ys) = count_requests xs + count_requests ys"
  by (simp add: count_requests_def)

lemma count_requests_simps [simp]:
  "count_requests [] = 0"
  "count_requests (Requested u # tr) = Suc (count_requests tr)"
  "count_requests (Validated u b # tr) = count_requests tr"
  by (simp_all add: count_requests_def)

lemma fetch_TooMany:
  "redirect_count > MAX_REDIRECTS \<Longrightarrow>
   fetch_with_redirect_validation env url redirect_count s = (Inl too_many_redirects, s)"
  by (subst fetch_with_redirect_validation.simps) simp

lemma fetch_GetFails:
  "\<not> redirect_count > MAX_REDIRECTS \<Longrightarrow> client_get env url s = (Inl e, s1) \<Longrightarrow>
   fetch_with_redirect_validation env url redirect_count s = (Inl e, s1)"
  by (subst fetch_with_redirect_validation.simps) simp

lemma fetch_Final:
  "\<not> redirect_count > MAX_REDIRECTS \<Longrightarrow> client_get env url s = (Inr r, s1) \<Longrightarrow>
   \<not> is_redirect_status (status_code r) \<Longrightarrow>
   fetch_with_redirect_validation env url redirect_count s = (Inr r, s1)"
  by (subst fetch_with_redirect_validation.simps) simp

lemma fetch_NoLocation:
  "\<not> redirect_count > MAX_REDIRECTS \<Longrightarrow> client_get env url s = (Inr r, s1) \<Longrightarrow>
   is_redirect_status (status_code r) \<Longrightarrow>
   headers r ''location'' = None \<or> headers r ''location'' = Some [] \<Longrightarrow>
   fetch_with_redirect_validation env url redirect_count s =
     (Inl (Exn PlainException ''Redirect response missing Location header''), s1)"
  by (subst fetch_with_redirect_validation.simps) auto

lemma fetch_Invalid:
  "\<not> redirect_count > MAX_REDIRECTS \<Longrightarrow> client_get env url s = (Inr r, s1) \<Longrightarrow>
   is_redirect_status (status_code r) \<Longrightarrow> headers r ''location'' = Some loc \<Longrightarrow> loc \<noteq> [] \<Longrightarrow>
   call_validate_url env loc s1 = ((False, m), s2) \<Longrightarrow>
   fetch_with_redirect_validation env url redirect_count s =
     (Inl (Exn PlainException (''Redirect target validation failed: '' @ m)), s2)"
  by (subst fetch_with_redirect_validation.simps) simp

lemma fetch_Follow:
  "\<not> redirect_count > MAX_REDIRECTS \<Longrightarrow> client_get env url s = (Inr r, s1) \<Longrightarrow>
   is_redirect_status (status_code r) \<Longrightarrow> headers r ''location'' = Some loc \<Longrightarrow> loc \<noteq> [] \<Longrightarrow>
   call_validate_url env loc s1 = ((True, m), s2) \<Longrightarrow>
   fetch_with_redirect_validation env url redirect_count s =
     fetch_with_redirect_validation env loc (redirect_count + 1) s2"
  by (subst fetch_with_redirect_validation.simps) simp

lemma fetch_induct2 [case_names TooMany GetFails Final NoLocation Invalid Follow]:
  assumes TooMany: "\<And>env url rc s. rc > MAX_REDIRECTS \<Longrightarrow> P env url rc s"
    and GetFails: "\<And>env url rc s e s1.
        \<not> rc > MAX_REDIRECTS \<Longrightarrow> client_get env url s = (Inl e, s1) \<Longrightarrow> P env url rc s"
    and Final: "\<And>env url rc s r s1.
        \<not> rc > MAX_REDIRECTS \<Longrightarrow> client_get env url s = (Inr r, s1) \<Longrightarrow>
        \<not> is_redirect_status (status_code r) \<Longrightarrow> P env url rc s"
    and NoLocation: "\<And>env url rc s r s1.
        \<not> rc > MAX_REDIRECTS \<Longrightarrow> client_get env url s = (Inr r, s1) \<Longrightarrow>
        is_redirect_status (status_code r) \<Longrightarrow>
        headers r ''location'' = None \<or> headers r ''location'' = Some [] \<Longrightarrow> P env url rc s"
    and Invalid: "\<And>env url rc s r s1 loc m s2.
        \<not> rc > MAX_REDIRECTS \<Longrightarrow> client_get env url s = (Inr r, s1) \<Longrightarrow>
        is_redirect_status (status_code r) \<Longrightarrow> headers r ''location'' = Some loc \<Longrightarrow> loc \<noteq> [] \<Longrightarrow>
        call_validate_url env loc s1 = ((False, m), s2) \<Longrightarrow> P env url rc s"
    and Follow: "\<And>env url rc s r s1 loc m s2.
        \<not> rc > MAX_REDIRECTS \<Longrightarrow> client_get env url s = (Inr r, s1) \<Longrightarrow>
        is_redirect_status (status_code r) \<Longrightarrow> headers r ''location'' = Some loc \<Longrightarrow> loc \<noteq> [] \<Longrightarrow>
        call_validate_url env loc s1 = ((True, m), s2) \<Longrightarrow>
        P env loc (rc + 1) s2 \<Longrightarrow> P env url rc s"
  shows "P env url rc s"
proof (induction env url rc s rule: fetch_with_redirect_validation.induct)
  case (1 env url rc s)
  show ?case
  proof (cases "rc > MAX_REDIRECTS")
    case True
    then show ?thesis by (rule TooMany)
  next
    case small: False
    obtain res s1 where g: "client_get env url s = (res, s1)"
      by (cases "client_get env url s") auto
    show ?thesis
    proof (cases res)
      case (Inl e)
      with small g show ?thesis by (auto intro: GetFails)
    next
      case (Inr r)
      note g' = g[unfolded Inr]
      show ?thesis
      proof (cases "is_redirect_status (status_code r)")
        case False
        with small g' show ?thesis by (auto intro: Final)
      next
        case redir: True
        show ?thesis
        proof (cases "headers r ''location''")
          case None
          with small g' redir show ?thesis by (auto intro: NoLocation)
        next
          case (Some loc)
          show ?thesis
          proof (cases "loc = []")
            case True
            with small g' redir Some show ?thesis by (auto intro: NoLocation)
          next
            case ne: False
            obtain ok m s2 where v: "call_validate_url env loc s1 = ((ok, m), s2)"
              by (cases "call_validate_url env loc s1") auto
            show ?thesis
            proof (cases ok)
              case False
              with small g' redir Some ne v show ?thesis by (auto intro: Invalid)
            next
              case True
              have "P env loc (rc + 1) s2"
                using "1.IH"[OF small g[symmetric] Inr redir Some ne v[symmetric] refl] True
                by simp
              with small g' redir Some ne v True show ?thesis by (auto intro: Follow)
            qed
          qed
        qed
      qed
    qed
  qed
qed

text \<open>What a fetch adds to the log.\<close>

lemma fetch_log:
  "\<exists>ev. trace (snd (fetch_with_redirect_validation env url rc s)) = trace s @ ev
        \<and> foldl guard_step (Cleared url) ev \<noteq> Violated
        \<and> count_requests ev \<le> nat (MAX_REDIRECTS + 1 - rc)"
proof (induction env url rc s rule: fetch_induct2)
  case (Follow env url rc s r s1 loc m s2)
  then obtain ev where ev: "trace (snd (fetch_with_redirect_validation env loc (rc + 1) s2)) = trace s2 @ ev"
     "foldl guard_step (Cleared loc) ev \<noteq> Violated" "count_requests ev \<le> nat (MAX_REDIRECTS + 1 - (rc + 1))"
    by blast
  have t: "trace s2 = trace s @ [Requested url, Validated loc True]"
    using Follow client_get_trace call_validate_url_trace by fastforce
  show ?case
    apply (rule exI[of _ "[Requested url, Validated loc True] @ ev"])
    using Follow(1-6) ev t by (simp add: fetch_Follow)
next
  case (Invalid env url rc s r s1 loc m s2)
  have t: "trace s2 = trace s @ [Requested url, Validated loc False]"
    using Invalid client_get_trace call_validate_url_trace by fastforce
  show ?case
    apply (rule exI[of _ "[Requested url, Validated loc False]"])
    using Invalid t by (simp add: fetch_Invalid)
next
  case (TooMany env url rc s)
  then show ?case by (simp add: fetch_TooMany)
next
  case (GetFails env url rc s e s1)
  then show ?case
    by (intro exI[of _ "[Requested url]"]) (auto simp: fetch_GetFails dest!: client_get_trace)
next
  case (Final env url rc s r s1)
  then show ?case
    by (intro exI[of _ "[Requested url]"]) (auto simp: fetch_Final dest!: client_get_trace)
next
  case (NoLocation env url rc s r s1)
  then show ?case
    by (intro exI[of _ "[Requested url]"]) (auto simp: fetch_NoLocation dest!: client_get_trace)
qed

lemma execute_log:
  "\<exists>ev. fetch_events env self url extractMode maxChars s = ev
        \<and> foldl guard_step Idle ev \<noteq> Violated
        \<and> count_requests ev \<le> nat (MAX_REDIRECTS + 1)"
proof -
  obtain ok m s1 where v: "call_validate_url env url s = ((ok, m), s1)"
    by (cases "call_validate_url env url s") auto
  note t1 = call_validate_url_trace[OF v]
  show ?thesis
  proof (cases ok)
    case False
    with v t1 show ?thesis
      by (simp add: fetch_events_def web_fetch_execute_def)
  next
    case True
    obtain res s2 where f: "fetch_with_redirect_validation env url 0 s1 = (res, s2)"
      by (cases "fetch_with_redirect_validation env url 0 s1") auto
    from fetch_log[of env url 0 s1] f obtain ev where ev: "trace s2 = trace s1 @ ev"
      "foldl guard_step (Cleared url) ev \<noteq> Violated" "count_requests ev \<le> nat (MAX_REDIRECTS + 1)"
      by auto
    have "snd (web_fetch_execute env self url extractMode maxChars s) = s2"
      using v True f
      by (auto simp: web_fetch_execute_def Let_def split: sum.splits option.splits prod.splits)
    then have "fetch_events env self url extractMode maxChars s = Validated url True # ev"
      using t1 ev True by (simp add: fetch_events_def)
    with ev show ?thesis by simp
  qed
qed

lemma too_many_redirects_text:
  "too_many_redirects = Exn PlainException ''Too many redirects (max 5)''"
  by (simp add: too_many_redirects_def MAX_REDIRECTS_def str_int_def digit_char_def)

lemma chain_fetch:
  "redirect_chain env k url (nstate s) \<Longrightarrow> rc + int k = MAX_REDIRECTS + 1 \<Longrightarrow>
   \<exists>ev s'. fetch_with_redirect_validation env url rc s = (Inl too_many_redirects, s')
          \<and> trace s' = trace s @ ev \<and> count_requests ev = k"
proof (induction k arbitrary: url rc s)
  case 0
  then show ?case by (simp add: fetch_TooMany)
next
  case (Suc k)
  from Suc.prems(1) obtain r n1 loc msg n2 where
    g: "http_get env url USER_AGENT (nstate s) = (Inr r, n1)"
    and redir: "is_redirect_status (status_code r)"
    and loc: "headers r ''location'' = Some loc" "loc \<noteq> []"
    and v: "validate_url env loc n1 = ((True, msg), n2)"
    and rest: "redirect_chain env k loc n2"
  proof -
    obtain res n1 where g: "http_get env url USER_AGENT (nstate s) = (res, n1)"
      by (cases "http_get env url USER_AGENT (nstate s)") auto
    with Suc.prems(1) obtain r where r: "res = Inr r" "is_redirect_status (status_code r)"
      by (cases res) auto
    with Suc.prems(1) g obtain loc where loc: "headers r ''location'' = Some loc" "loc \<noteq> []"
      by (cases "headers r ''location''") auto
    obtain ok msg n2 where v: "validate_url env loc n1 = ((ok, msg), n2)"
      by (cases "validate_url env loc n1") auto
    with Suc.prems(1) g r loc have "ok" "redirect_chain env k loc n2"
      by auto
    with g r loc v that show ?thesis by simp
  qed
  define s1 where "s1 = s\<lparr>trace := trace s @ [Requested url], nstate := n1\<rparr>"
  define s2 where "s2 = s1\<lparr>trace := trace s1 @ [Validated loc True], nstate := n2\<rparr>"
  have g': "client_get env url s = (Inr r, s1)"
    using g by (simp add: client_get_def s1_def)
  have v': "call_validate_url env loc s1 = ((True, msg), s2)"
    using v by (simp add: call_validate_url_def s1_def s2_def)
  have small: "\<not> rc > MAX_REDIRECTS"
    using Suc.prems(2) by simp
  have "redirect_chain env k loc (nstate s2)"
    using rest by (simp add: s2_def)
  moreover have "rc + 1 + int k = MAX_REDIRECTS + 1"
    using Suc.prems(2) by simp
  ultimately obtain ev s' where
    r: "fetch_with_redirect_validation env loc (rc + 1) s2 = (Inl too_many_redirects, s')"
       "trace s' = trace s2 @ ev" "count_requests ev = k"
    using Suc.IH by blast
  have "fetch_with_redirect_validation env url rc s = (Inl too_many_redirects, s')"
    using fetch_Follow[OF small g' redir loc v'] r(1) by simp
  moreover have "trace s' = trace s @ ([Requested url, Validated loc True] @ ev)"
    using r(2) by (simp add: s1_def s2_def)
  moreover have "count_requests ([Requested url, Validated loc True] @ ev) = Suc k"
    using r(3) by simp
  ultimately show ?case by blast
qed

lemma chain_execute:
  assumes v: "validate_url env url (nstate s) = ((True, m), n1)"
    and chain: "redirect_chain env (nat (MAX_REDIRECTS + 1)) url n1"
  shows "fst (web_fetch_execute env self url extractMode maxChars s)
           = FetchError ''Too many redirects (max 5)'' url
         \<and> redirect_hops (fetch_events env self url extractMode maxChars s) = nat MAX_REDIRECTS"
proof -
  define s1 where "s1 = s\<lparr>trace := trace s @ [Validated url True], nstate := n1\<rparr>"
  have v': "call_validate_url env url s = ((True, m), s1)"
    using v by (simp add: call_validate_url_def s1_def)
  have "redirect_chain env (nat (MAX_REDIRECTS + 1)) url (nstate s1)"
    using chain by (simp add: s1_def)
  moreover have "0 + int (nat (MAX_REDIRECTS + 1)) = MAX_REDIRECTS + 1"
    by (simp add: MAX_REDIRECTS_def)
  ultimately obtain ev s' where
    r: "fetch_with_redirect_validation env url 0 s1 = (Inl too_many_redirects, s')"
       "trace s' = trace s1 @ ev" "count_requests ev = nat (MAX_REDIRECTS + 1)"
    using chain_fetch by blast
  have out: "web_fetch_execute env self url extractMode maxChars s
               = (FetchError ''Too many redirects (max 5)'' url, s')"
    using v' r(1) by (simp add: web_fetch_execute_def too_many_redirects_text)
  have "fetch_events env self url extractMode maxChars s = Validated url True # ev"
    using out r(2) by (simp add: fetch_events_def s1_def)
  then have "redirect_hops (fetch_events env self url extractMode maxChars s) = nat MAX_REDIRECTS"
    using r(3) by (simp add: redirect_hops_def MAX_REDIRECTS_def)
  with out show ?thesis by simp
qed


lemma targets_private_rejected:
  "targets_private env loc n \<Longrightarrow> \<not> fst (fst (validate_url env loc n))"
  by (auto simp: targets_private_def validate_url_def split: sum.splits option.splits prod.splits)

lemma redirect_rejected:
  assumes v: "validate_url env url (nstate s) = ((True, m), n1)"
    and g: "http_get env url USER_AGENT n1 = (Inr r, n2)"
    and redir: "is_redirect_status (status_code r)"
    and loc: "headers r ''location'' = Some loc" "loc \<noteq> []"
    and bad: "\<not> fst (fst (validate_url env loc n2))"
  shows "fst (web_fetch_execute env self url extractMode maxChars s)
           = FetchError (''Redirect target validation failed: '' @ snd (fst (validate_url env loc n2))) url"
    and "fetch_events env self url extractMode maxChars s
           = [Validated url True, Requested url, Validated loc False]"
proof -
  define s1 where "s1 = s\<lparr>trace := trace s @ [Validated url True], nstate := n1\<rparr>"
  define s2 where "s2 = s1\<lparr>trace := trace s1 @ [Requested url], nstate := n2\<rparr>"
  obtain why n3 where w: "validate_url env loc n2 = ((False, why), n3)"
    using bad by (cases "validate_url env loc n2") auto
  define s3 where "s3 = s2\<lparr>trace := trace s2 @ [Validated loc False], nstate := n3\<rparr>"
  have v': "call_validate_url env url s = ((True, m), s1)"
    using v by (simp add: call_validate_url_def s1_def)
  have g': "client_get env url s1 = (Inr r, s2)"
    using g by (simp add: client_get_def s1_def s2_def)
  have w': "call_validate_url env loc s2 = ((False, why), s3)"
    using w by (simp add: call_validate_url_def s2_def s3_def)
  have small: "\<not> (0::int) > MAX_REDIRECTS"
    by (simp add: MAX_REDIRECTS_def)
  have f: "fetch_with_redirect_validation env url 0 s1
             = (Inl (Exn PlainException (''Redirect target validation failed: '' @ why)), s3)"
    by (rule fetch_Invalid[OF small g' redir loc w'])
  have out: "web_fetch_execute env self url extractMode maxChars s
               = (FetchError (''Redirect target validation failed: '' @ why) url, s3)"
    using v' f by (simp add: web_fetch_execute_def)
  show "fst (web_fetch_execute env self url extractMode maxChars s)
           = FetchError (''Redirect target validation failed: '' @ snd (fst (validate_url env loc n2))) url"
    using out w by simp
  show "fetch_events env self url extractMode maxChars s
           = [Validated url True, Requested url, Validated loc False]"
    using out by (simp add: fetch_events_def s1_def s2_def s3_def)
qed

subsection \<open>The small network evaluated\<close>

lemmas sample_defs =
  sample_env_def sample_urlparse_def sample_getaddrinfo_def sample_http_get_def
  sample_ip_address_def redirect_to_def sample_tool_def fresh_net_def

lemmas validate_defs =
  validate_url_def resolve_hostname_def is_private_ip_def lower_def lower_char_def ascii_uppercase_def ascii_lowercase_def
  BLOCKED_HOSTNAMES_def PRIVATE_IP_RANGES_def ip_in_network_def ipv4_def max_prefixlen_def

lemma sample_validate_loop:
  "validate_url sample_env ''http://loop.example/'' () = ((True, []), ())"
  by (simp add: sample_defs validate_defs)

lemma sample_chain_loop:
  "redirect_chain sample_env k ''http://loop.example/'' ()"
proof (induction k)
  case 0
  show ?case by simp
next
  case (Suc k)
  have "http_get sample_env ''http://loop.example/'' USER_AGENT ()
          = (Inr (redirect_to ''http://loop.example/'' ''http://loop.example/''), ())"
    by (simp add: sample_env_def sample_http_get_def)
  then show ?case
    using Suc sample_validate_loop by (simp add: redirect_to_def is_redirect_status_def)
qed

lemma sample_validate_public:
  "validate_url sample_env ''http://public.example/'' () = ((True, []), ())"
  by (simp add: sample_defs validate_defs)

lemma sample_validate_internal:
  "validate_url sample_env ''http://internal.example/'' ()
     = ((False, ''Access to private/internal addresses is blocked''), ())"
  by (simp add: sample_defs validate_defs)

lemma sample_targets_private:
  "targets_private sample_env ''http://internal.example/'' ()"
  by (simp add: targets_private_def sample_defs validate_defs)


section \<open>Claims about web.py\<close>

text \<open>
  C5. For every fetch, the number of redirect hops followed never exceeds \<open>MAX_REDIRECTS\<close>:
  among the requests \<open>execute\<close> sends, those after the request of the URL itself are at
  most \<open>MAX_REDIRECTS\<close>, whatever the network answers. A chain of \<open>MAX_REDIRECTS + 1\<close>
  redirects, each to a target that passes validation, ends the fetch with the error
  "Too many redirects (max 5)" after exactly \<open>MAX_REDIRECTS\<close> hops: the outcome is the error
  dictionary, never a page.
\<close>

theorem redirect_depth_bounded:
  "int (redirect_hops (fetch_events env self url extractMode maxChars s)) \<le> MAX_REDIRECTS
   \<and> (\<forall>m n1. validate_url env url (nstate s) = ((True, m), n1) \<longrightarrow>
        redirect_chain env (nat (MAX_REDIRECTS + 1)) url n1 \<longrightarrow>
          fst (web_fetch_execute env self url extractMode maxChars s)
            = FetchError ''Too many redirects (max 5)'' url
          \<and> int (redirect_hops (fetch_events env self url extractMode maxChars s)) = MAX_REDIRECTS)"
proof -
  obtain ev where "fetch_events env self url extractMode maxChars s = ev"
    "count_requests ev \<le> nat (MAX_REDIRECTS + 1)"
    using execute_log by blast
  then have "int (redirect_hops (fetch_events env self url extractMode maxChars s)) \<le> MAX_REDIRECTS"
    by (simp add: redirect_hops_def MAX_REDIRECTS_def)
  moreover have "0 \<le> MAX_REDIRECTS" by (simp add: MAX_REDIRECTS_def)
  ultimately show ?thesis
    using chain_execute[of env url s _ _ self extractMode maxChars] by auto
qed

theorem redirect_depth_bounded_witness:
  "validate_url sample_env ''http://loop.example/'' (nstate fresh_net) = ((True, []), ())
   \<and> redirect_chain sample_env (nat (MAX_REDIRECTS + 1)) ''http://loop.example/'' ()
   \<and> fst (web_fetch_execute sample_env sample_tool ''http://loop.example/'' ''markdown'' None fresh_net)
       = FetchError ''Too many redirects (max 5)'' ''http://loop.example/''
   \<and> int (redirect_hops
        (fetch_events sample_env sample_tool ''http://loop.example/'' ''markdown'' None fresh_net)) = 5"
proof -
  have v: "validate_url sample_env ''http://loop.example/'' (nstate fresh_net) = ((True, []), ())"
    using sample_validate_loop by (simp add: fresh_net_def)
  have c: "redirect_chain sample_env (nat (MAX_REDIRECTS + 1)) ''http://loop.example/'' ()"
    by (rule sample_chain_loop)
  show ?thesis
    using v c redirect_depth_bounded[of sample_env sample_tool "''http://loop.example/''" "''markdown''" None fresh_net]
    by (simp add: MAX_REDIRECTS_def)
qed

text \<open>
  C1. During one web fetch, every HTTP request, the request of each redirect hop included,
  is preceded by a successful validation of its target by \<open>_validate_url\<close>: in the log
  of \<open>execute\<close>, whatever the network answers, the event just before a request of \<open>u\<close> is
  a validation of \<open>u\<close> that succeeded. In particular, when the URL passes validation and
  its page redirects to a Location that targets a private address, the fetch fails with
  "Redirect target validation failed: ..." and the Location is never requested: the log
  holds the validation of the URL, its request, and the failed validation of the Location.
\<close>

theorem every_request_validated:
  "requests_validated (fetch_events env self url extractMode maxChars s)
   \<and> (\<forall>m n1 r n2 loc.
        validate_url env url (nstate s) = ((True, m), n1) \<longrightarrow>
        http_get env url USER_AGENT n1 = (Inr r, n2) \<longrightarrow>
        is_redirect_status (status_code r) \<longrightarrow>
        headers r ''location'' = Some loc \<longrightarrow>
        targets_private env loc n2 \<longrightarrow>
          fst (web_fetch_execute env self url extractMode maxChars s)
            = FetchError (''Redirect target validation failed: ''
                            @ snd (fst (validate_url env loc n2))) url
          \<and> fetch_events env self url extractMode maxChars s
            = [Validated url True, Requested url, Validated loc False])"
proof (intro conjI allI impI)
  show "requests_validated (fetch_events env self url extractMode maxChars s)"
    using execute_log[of env self url extractMode maxChars s]
    by (simp add: requests_validated_def)
next
  fix m n1 r n2 loc
  assume v: "validate_url env url (nstate s) = ((True, m), n1)"
    and g: "http_get env url USER_AGENT n1 = (Inr r, n2)"
    and redir: "is_redirect_status (status_code r)"
    and loc: "headers r ''location'' = Some loc"
    and priv: "targets_private env loc n2"
  have ne: "loc \<noteq> []"
    using priv by (simp add: targets_private_def)
  note bad = targets_private_rejected[OF priv]
  show "fst (web_fetch_execute env self url extractMode maxChars s)
          = FetchError (''Redirect target validation failed: ''
                          @ snd (fst (validate_url env loc n2))) url"
    by (rule redirect_rejected(1)[OF v g redir loc ne bad])
  show "fetch_events env self url extractMode maxChars s
          = [Validated url True, Requested url, Validated loc False]"
    by (rule redirect_rejected(2)[OF v g redir loc ne bad])
qed

theorem every_request_validated_witness:
  "validate_url sample_env ''http://public.example/'' (nstate fresh_net) = ((True, []), ())
   \<and> http_get sample_env ''http://public.example/'' USER_AGENT ()
       = (Inr (redirect_to ''http://public.example/'' ''http://internal.example/''), ())
   \<and> is_redirect_status (status_code (redirect_to ''http://public.example/'' ''http://internal.example/''))
   \<and> headers (redirect_to ''http://public.example/'' ''http://internal.example/'') ''location''
       = Some ''http://internal.example/''
   \<and> targets_private sample_env ''http://internal.example/'' ()
   \<and> fst (web_fetch_execute sample_env sample_tool ''http://public.example/'' ''markdown'' None fresh_net)
       = FetchError ''Redirect target validation failed: Access to private/internal addresses is blocked''
           ''http://public.example/''
   \<and> fetch_events sample_env sample_tool ''http://public.example/'' ''markdown'' None fresh_net
       = [Validated ''http://public.example/'' True, Requested ''http://public.example/'',
          Validated ''http://internal.example/'' False]
   \<and> requests_validated
        (fetch_events sample_env sample_tool ''http://public.example/'' ''markdown'' None fresh_net)"
proof -
  have v: "validate_url sample_env ''http://public.example/'' (nstate fresh_net) = ((True, []), ())"
    using sample_validate_public by (simp add: fresh_net_def)
  have g: "http_get sample_env ''http://public.example/'' USER_AGENT ()
       = (Inr (redirect_to ''http://public.example/'' ''http://internal.example/''), ())"
    by (simp add: sample_env_def sample_http_get_def)
  have r: "is_redirect_status (status_code (redirect_to ''http://public.example/'' ''http://internal.example/''))"
    by (simp add: redirect_to_def is_redirect_status_def)
  have l: "headers (redirect_to ''http://public.example/'' ''http://internal.example/'') ''location''
       = Some ''http://internal.example/''"
    by (simp add: redirect_to_def)
  note p = sample_targets_private
  have q: "requests_validated [Validated ''http://public.example/'' True,
       Requested ''http://public.example/'', Validated ''http://internal.example/'' False]"
    by (simp add: requests_validated_def)
  show ?thesis
    using v g r l p q sample_validate_internal
      every_request_validated[of sample_env sample_tool "''http://public.example/''" "''markdown''" None fresh_net]
    by simp
qed




section \<open>Claims about registry.py\<close>




section \<open>loop.py: properties\<close>

declare agent_loop_from.simps [simp del]









lemma no_terminal_response_simps [simp]:
  "no_terminal_response [] = True"
  "no_terminal_response ((req, Inr r) # calls) = (has_tool_calls r \<and> no_terminal_response calls)"
  "no_terminal_response ((req, Inl e) # calls) = no_terminal_response calls"
  by (simp_all add: no_terminal_response_def)



lemma set_tool_context_world:
  "set_tool_context agent ch cid w = w\<lparr>ext := ext (set_tool_context agent ch cid w)\<rparr>"
  by (simp add: set_tool_context_def)


lemma set_tool_context_fields [simp]:
  "tools (set_tool_context agent ch cid w) = tools w"
  "mcp_connected (set_tool_context agent ch cid w) = mcp_connected w"
  "heap (set_tool_context agent ch cid w) = heap w"
  "next_addr (set_tool_context agent ch cid w) = next_addr w"
  "cache (set_tool_context agent ch cid w) = cache w"
  "disk (set_tool_context agent ch cid w) = disk w"
  "long_term (set_tool_context agent ch cid w) = long_term w"
  "history_log (set_tool_context agent ch cid w) = history_log w"
  "outbound_queue (set_tool_context agent ch cid w) = outbound_queue w"
  "background_tasks (set_tool_context agent ch cid w) = background_tasks w"
  "chat_log (set_tool_context agent ch cid w) = chat_log w"
  "logged (set_tool_context agent ch cid w) = logged w"
  by (simp_all add: set_tool_context_def)


lemma simple_fields [simp]:
  "chat_log (create_task j w) = chat_log w"
  "chat_log (save a w) = chat_log w"
  "chat_log (clear a w) = chat_log w"
  "chat_log (invalidate k w) = chat_log w"
  "chat_log (add_message agent a r c used w) = chat_log w"
  "chat_log (publish_outbound out w) = chat_log w"
  "chat_log (log_error line w) = chat_log w"
  by (simp_all add: create_task_def save_def clear_def invalidate_def add_message_def
        publish_outbound_def log_error_def)










lemma run_iteration_continues: "fst (run_iteration agent polled w) = None"
  by (simp add: run_iteration_def split: option.splits prod.splits sum.splits)

lemma run_loop_step:
  "run_loop agent (polled # later) w = run_loop agent later (snd (run_iteration agent polled w))"
  using run_iteration_continues[of agent polled w]
  by (cases "run_iteration agent polled w") simp

lemma run_loop_continues: "fst (run_loop agent polls w) = None"
proof (induction polls arbitrary: w)
  case Nil
  show ?case by simp
next
  case (Cons polled later)
  show ?case
    unfolding run_loop_step by (rule Cons)
qed

lemma run_iteration_apology:
  assumes "fst (process_message agent msg None w) = Inl e"
  shows "snd (run_iteration agent (Some msg) w)
           = publish_outbound
               \<lparr>out_channel = channel msg, out_chat_id = chat_id msg, out_content = APOLOGY,
                out_metadata = []\<rparr>
               (log_error (''Error processing message: '' @ str_exn e)
                  (snd (process_message agent msg None w)))"
  using assms
  by (cases "process_message agent msg None w") (simp add: run_iteration_def)

lemma select_keep_count:
  "select_old_messages agent s archive_all = Some (old_messages, keep_count) \<Longrightarrow>
   keep_count = (if archive_all then 0 else memory_window agent div 2)"
  by (auto simp: select_old_messages_def Let_def split: if_splits)

lemma consolidate_memory_skip:
  "select_old_messages agent (heap w a) archive_all = None \<Longrightarrow>
   consolidate_memory agent a archive_all w = w"
  by (simp add: consolidate_memory_def)

text \<open>Writing one field of the reply to the memory store.\<close>

lemma append_history_writable:
  "writable v \<Longrightarrow>
   \<exists>w1. (if truthy v then append_history v w else Inr w) = Inr w1 \<and> heap w1 = heap w
        \<and> ext w1 = ext w \<and> chat_log w1 = chat_log w"
  by (cases v) (simp_all add: writable_def append_history_def)

lemma append_history_not_writable:
  "\<not> writable v \<Longrightarrow> \<exists>e. (if truthy v then append_history v w else Inr w) = Inl e"
  by (cases v) (simp_all add: writable_def append_history_def)

lemma write_long_term_writable:
  "writable v \<Longrightarrow>
   \<exists>w1. (if truthy v \<and> v \<noteq> JStr current then write_long_term v w else Inr w) = Inr w1
        \<and> heap w1 = heap w \<and> ext w1 = ext w \<and> chat_log w1 = chat_log w"
  by (cases v) (simp_all add: writable_def write_long_term_def)

lemma write_long_term_not_writable:
  "\<not> writable v \<Longrightarrow>
   \<exists>e. (if truthy v \<and> v \<noteq> JStr current then write_long_term v w else Inr w) = Inl e"
  by (cases v) (simp_all add: writable_def write_long_term_def)

text \<open>The body of \<open>try\<close>, case by case.\<close>

lemma apply_response_empty:
  "stripped_content response = [] \<Longrightarrow>
   apply_response agent a archive_all keep_count current response w
     = (None, log_warning ''Memory consolidation: LLM returned empty response, skipping'' w)"
  by (simp add: apply_response_def)

lemma apply_response_unparsed:
  "stripped_content response \<noteq> [] \<Longrightarrow>
   json_repair_loads agent (unfenced (stripped_content response)) = Inl e \<Longrightarrow>
   apply_response agent a archive_all keep_count current response w = (Some e, w)"
  by (simp add: apply_response_def)

lemma apply_response_not_dict:
  "stripped_content response \<noteq> [] \<Longrightarrow>
   json_repair_loads agent (unfenced (stripped_content response)) = Inr v \<Longrightarrow>
   (case v of JDict result \<Rightarrow> False | _ \<Rightarrow> True) \<Longrightarrow>
   apply_response agent a archive_all keep_count current response w
     = (None,
        log_warning (''Memory consolidation: unexpected response type, skipping. Response: ''
                       @ py_slice_to (unfenced (stripped_content response)) 200) w)"
  by (cases v) (simp_all add: apply_response_def)

lemma apply_response_written:
  assumes "stripped_content response \<noteq> []"
    and "json_repair_loads agent (unfenced (stripped_content response)) = Inr (JDict result)"
    and "writable (dict_get result ''history_entry'')"
    and "writable (dict_get result ''memory_update'')"
  shows "\<exists>w2. apply_response agent a archive_all keep_count current response w
                 = (None, set_cursor a (if archive_all then 0
                                        else int (length (messages (heap w a))) - keep_count) w2)
              \<and> heap w2 = heap w"
proof -
  obtain w1 where 1: "(if truthy (dict_get result ''history_entry'')
                       then append_history (dict_get result ''history_entry'') w else Inr w) = Inr w1"
      "heap w1 = heap w"
    using append_history_writable[OF assms(3), of w] by blast
  obtain w2 where 2: "(if truthy (dict_get result ''memory_update'')
                          \<and> dict_get result ''memory_update'' \<noteq> JStr current
                       then write_long_term (dict_get result ''memory_update'') w1 else Inr w1) = Inr w2"
      "heap w2 = heap w1"
    using write_long_term_writable[OF assms(4), of current w1] by blast
  have "apply_response agent a archive_all keep_count current response w
          = (None, set_cursor a (if archive_all then 0
                                 else int (length (messages (heap w2 a))) - keep_count) w2)"
    using assms(1,2) 1(1) 2(1) by (simp add: apply_response_def)
  with 1(2) 2(2) show ?thesis by auto
qed

lemma apply_response_not_written:
  assumes "stripped_content response \<noteq> []"
    and "json_repair_loads agent (unfenced (stripped_content response)) = Inr (JDict result)"
    and "\<not> (writable (dict_get result ''history_entry'')
            \<and> writable (dict_get result ''memory_update''))"
  shows "\<exists>e w1. apply_response agent a archive_all keep_count current response w = (Some e, w1)
              \<and> heap w1 = heap w"
proof (cases "writable (dict_get result ''history_entry'')")
  case False
  then obtain e where "(if truthy (dict_get result ''history_entry'')
                       then append_history (dict_get result ''history_entry'') w else Inr w) = Inl e"
    using append_history_not_writable by blast
  with assms(1,2) show ?thesis by (simp add: apply_response_def)
next
  case True
  then obtain w1 where 1: "(if truthy (dict_get result ''history_entry'')
                       then append_history (dict_get result ''history_entry'') w else Inr w) = Inr w1"
      "heap w1 = heap w"
    using append_history_writable[of _ w] by blast
  from True assms(3) obtain e where
    2: "(if truthy (dict_get result ''memory_update'')
            \<and> dict_get result ''memory_update'' \<noteq> JStr current
         then write_long_term (dict_get result ''memory_update'') w1 else Inr w1) = Inl e"
    using write_long_term_not_writable by blast
  have "apply_response agent a archive_all keep_count current response w = (Some e, w1)"
    using assms(1,2) 1(1) 2 by (simp add: apply_response_def)
  with 1(2) show ?thesis by auto
qed

text \<open>A run that reached the provider, by the outcome of the call.\<close>

lemma consolidate_memory_reached:
  assumes "select_old_messages agent (heap w a) archive_all = Some (old_messages, keep_count)"
    and "chat agent (consolidation_request agent (long_term w) old_messages) (ext w) = (res, x')"
  shows "consolidate_memory agent a archive_all w =
     (case res of
        Inl e \<Rightarrow> log_error (''Memory consolidation failed: '' @ str_exn e)
                   (w\<lparr>ext := x', chat_log := chat_log w
                        @ [(consolidation_request agent (long_term w) old_messages, res)]\<rparr>)
      | Inr response \<Rightarrow>
          (case apply_response agent a archive_all keep_count (long_term w) response
                  (w\<lparr>ext := x', chat_log := chat_log w
                        @ [(consolidation_request agent (long_term w) old_messages, res)]\<rparr>) of
             (Some e, w2) \<Rightarrow> log_error (''Memory consolidation failed: '' @ str_exn e) w2
           | (None, w2) \<Rightarrow> w2))"
  using assms
  by (simp add: consolidate_memory_def provider_chat_def read_long_term_def Let_def
        split: sum.splits)

lemma consolidate_memory_failed:
  assumes sel: "select_old_messages agent (heap w a) archive_all = Some (old_messages, keep_count)"
    and ch: "chat agent (consolidation_request agent (long_term w) old_messages) (ext w) = (res, x')"
    and failed: "response_failed agent res"
  shows "heap (consolidate_memory agent a archive_all w) = heap w"
    and "long_term (consolidate_memory agent a archive_all w) = long_term w"
    and "history_log (consolidate_memory agent a archive_all w) = history_log w"
proof -
  note r = consolidate_memory_reached[OF sel ch]
  have "heap (consolidate_memory agent a archive_all w) = heap w
      \<and> long_term (consolidate_memory agent a archive_all w) = long_term w
      \<and> history_log (consolidate_memory agent a archive_all w) = history_log w"
  proof (cases res)
    case (Inl e)
    then show ?thesis by (simp add: r log_error_def)
  next
    case (Inr response)
    show ?thesis
    proof (cases "stripped_content response = []")
      case True
      then show ?thesis
        by (simp add: r Inr apply_response_empty log_warning_def)
    next
      case ne: False
      show ?thesis
      proof (cases "json_repair_loads agent (unfenced (stripped_content response))")
        case (Inl e)
        with ne show ?thesis
          by (simp add: r Inr apply_response_unparsed log_error_def)
      next
        case parsed: (Inr v)
        with failed Inr ne have "case v of JDict result \<Rightarrow> False | _ \<Rightarrow> True"
          by (cases v) (simp_all add: response_failed_def)
        from apply_response_not_dict[OF ne parsed this] show ?thesis
          by (simp add: r Inr log_warning_def)
      qed
    qed
  qed
  then show "heap (consolidate_memory agent a archive_all w) = heap w"
    and "long_term (consolidate_memory agent a archive_all w) = long_term w"
    and "history_log (consolidate_memory agent a archive_all w) = history_log w"
    by simp_all
qed

lemma consolidate_memory_heap:
  assumes sel: "select_old_messages agent (heap w a) archive_all = Some (old_messages, keep_count)"
    and ch: "chat agent (consolidation_request agent (long_term w) old_messages) (ext w) = (res, x')"
  shows "heap (consolidate_memory agent a archive_all w) =
     (if response_succeeded agent res
      then (heap w)(a := (heap w a)\<lparr>last_consolidated := cursor_target agent (heap w a) archive_all\<rparr>)
      else heap w)"
proof (cases "response_failed agent res")
  case True
  then have "\<not> response_succeeded agent res"
    by (auto simp: response_failed_def response_succeeded_def split: sum.splits json.splits)
  with consolidate_memory_failed(1)[OF sel ch True] show ?thesis by simp
next
  case False
  then obtain response result where res: "res = Inr response"
    and ne: "stripped_content response \<noteq> []"
    and parsed: "json_repair_loads agent (unfenced (stripped_content response)) = Inr (JDict result)"
    by (auto simp: response_failed_def split: sum.splits json.splits)
  note r = consolidate_memory_reached[OF sel ch]
  define w1 where "w1 = w\<lparr>ext := x', chat_log := chat_log w
                        @ [(consolidation_request agent (long_term w) old_messages, res)]\<rparr>"
  have h1: "heap w1 = heap w" by (simp add: w1_def)
  note k = select_keep_count[OF sel]
  show ?thesis
  proof (cases "writable (dict_get result ''history_entry'')
                 \<and> writable (dict_get result ''memory_update'')")
    case True
    then have s: "response_succeeded agent res"
      using res ne parsed by (simp add: response_succeeded_def)
    define target where
      "target = (if archive_all then 0 else int (length (messages (heap w1 a))) - keep_count)"
    from True apply_response_written[OF ne parsed, of a archive_all keep_count "long_term w" w1]
    obtain w2 where ar: "apply_response agent a archive_all keep_count (long_term w) response w1
                 = (None, set_cursor a target w2)"
      and h2: "heap w2 = heap w1"
      unfolding target_def by blast
    have t: "target = cursor_target agent (heap w a) archive_all"
      using k h1 by (simp add: target_def cursor_target_def)
    have "consolidate_memory agent a archive_all w = set_cursor a target w2"
      unfolding r using ar by (simp add: w1_def res)
    then show ?thesis
      using s h1 h2 t by (simp add: set_cursor_def)
  next
    case False
    then have s: "\<not> response_succeeded agent res"
      using res ne parsed by (simp add: response_succeeded_def)
    from apply_response_not_written[OF ne parsed False, of a archive_all keep_count "long_term w" w1]
    obtain e w2 where ar: "apply_response agent a archive_all keep_count (long_term w) response w1
                 = (Some e, w2)" and h2: "heap w2 = heap w1"
      by blast
    have "consolidate_memory agent a archive_all w
            = log_error (''Memory consolidation failed: '' @ str_exn e) w2"
      unfolding r using ar by (simp add: w1_def res)
    then show ?thesis
      using s h1 h2 by (simp add: log_error_def)
  qed
qed

lemma same_surroundings_refl [simp]: "same_surroundings w w"
  by (simp add: same_surroundings_def)





lemma heap_simple [simp]:
  "heap (log_error line w) = heap w"
  "heap (log_warning line w) = heap w"
  "heap (set_cursor a c w) = (heap w)(a := (heap w a)\<lparr>last_consolidated := c\<rparr>)"
  by (simp_all add: log_error_def log_warning_def set_cursor_def)













lemma heap_disk_simple [simp]:
  "heap (create_task j w) = heap w" "disk (create_task j w) = disk w"
  "heap (invalidate k w) = heap w" "disk (invalidate k w) = disk w"
  by (simp_all add: create_task_def invalidate_def)




subsection \<open>The sample consolidation runs\<close>

lemma sample_select:
  "select_old_messages (sample_agent provider 2 2) (heap (world_with two_messages 0) 0) False
     = Some ([said ''user'' ''I like tea''], 1)"
  by (simp add: select_old_messages_def sample_agent_def world_with_def two_messages_def
        py_slice_def slice_index_def Let_def)

lemma sample_ext: "ext (world_with msgs c) = 0" "long_term (world_with msgs c) = []"
  by (simp_all add: world_with_def sample_world_def)




subsection \<open>Provider calls and detached tasks of a turn\<close>


lemma chat_log_simple [simp]:
  "chat_log (log_warning line w) = chat_log w"
  "chat_log (set_cursor a c w) = chat_log w"
  by (simp_all add: log_warning_def set_cursor_def)



lemma tasks_simple [simp]:
  "background_tasks (save a w) = background_tasks w"
  "background_tasks (clear a w) = background_tasks w"
  "background_tasks (invalidate k w) = background_tasks w"
  "background_tasks (add_message agent a r c used w) = background_tasks w"
  "background_tasks (create_task j w) = background_tasks w @ [j]"
  by (simp_all add: save_def clear_def invalidate_def add_message_def create_task_def)




lemma py_slice_negative_end:
  assumes "0 < k" and "k < int (length xs)"
  shows "py_slice xs a (- k) = py_slice xs a (int (length xs) - k)"
  using assms by (simp add: py_slice_def slice_index_def Let_def)

lemma py_slice_zero_end: "py_slice xs a (- 0) = []"
  by (simp add: py_slice_def slice_index_def)

text \<open>From a window of two on, the slice taken is the one up to \<open>len - keep_count\<close>.\<close>

lemma select_old_messages_windowed:
  assumes "2 \<le> memory_window agent"
  shows "select_old_messages agent s False =
     (if int (length (messages s)) \<le> memory_window agent div 2
         \<or> int (length (messages s)) - last_consolidated s \<le> 0
         \<or> py_slice (messages s) (last_consolidated s)
              (int (length (messages s)) - memory_window agent div 2) = []
      then None
      else Some (py_slice (messages s) (last_consolidated s)
                   (int (length (messages s)) - memory_window agent div 2),
                 memory_window agent div 2))"
proof -
  from assms have k: "0 < memory_window agent div 2" by simp
  show ?thesis
  proof (cases "int (length (messages s)) \<le> memory_window agent div 2")
    case True
    then show ?thesis by (simp add: select_old_messages_def)
  next
    case False
    then have "memory_window agent div 2 < int (length (messages s))" by simp
    from py_slice_negative_end[OF k this, of "last_consolidated s"] False
    show ?thesis by (simp add: select_old_messages_def Let_def)
  qed
qed



section \<open>Claims about loop.py\<close>



text \<open>
  C4. When processing an inbound message raises, the pass of the run loop that took the
  message catches the exception, logs "Error processing message: ..." as an error, and
  publishes the generic apology to the channel and chat id of that message; the pass ends
  normally and the loop goes on with what the bus gives next. No pass of the loop, and so
  no run over any sequence of messages and empty seconds, ends with an exception.
\<close>

theorem run_loop_survives_failure:
  "fst (run_loop agent polls w) = None
   \<and> (\<forall>e. fst (process_message agent msg None w) = Inl e \<longrightarrow>
         fst (run_iteration agent (Some msg) w) = None
         \<and> outbound_queue (snd (run_iteration agent (Some msg) w))
             = outbound_queue (snd (process_message agent msg None w))
               @ [\<lparr>out_channel = channel msg, out_chat_id = chat_id msg, out_content = APOLOGY,
                   out_metadata = []\<rparr>]
         \<and> logged (snd (run_iteration agent (Some msg) w))
             = logged (snd (process_message agent msg None w))
               @ [(''ERROR'', ''Error processing message: '' @ str_exn e)]
         \<and> run_loop agent (Some msg # later) w
             = run_loop agent later (snd (run_iteration agent (Some msg) w)))"
  using run_loop_continues[of agent polls w] run_iteration_continues[of agent "Some msg" w]
    run_loop_step[of agent "Some msg" later w]
  by (auto simp: run_iteration_apology publish_outbound_def log_error_def)

theorem run_loop_survives_failure_witness:
  "fst (process_message (sample_agent chat_raises 2 50) (from_user ''hello'') None sample_world)
     = Inl (Exn OtherException ''provider unreachable'')
   \<and> fst (run_iteration (sample_agent chat_raises 2 50) (Some (from_user ''hello'')) sample_world) = None
   \<and> outbound_queue
        (snd (run_iteration (sample_agent chat_raises 2 50) (Some (from_user ''hello'')) sample_world))
       = [\<lparr>out_channel = ''cli'', out_chat_id = ''u1'',
           out_content = ''Sorry, I encountered an internal error. Please try again.'',
           out_metadata = []\<rparr>]
   \<and> logged
        (snd (run_iteration (sample_agent chat_raises 2 50) (Some (from_user ''hello'')) sample_world))
       = [(''ERROR'', ''Error processing message: provider unreachable'')]
   \<and> fst (run_loop (sample_agent chat_raises 2 50)
             [Some (from_user ''hello''), None, Some (from_user ''again'')] sample_world) = None"
proof -
  have f: "fst (process_message (sample_agent chat_raises 2 50) (from_user ''hello'') None sample_world)
     = Inl (Exn OtherException ''provider unreachable'')"
    by code_simp
  have q: "outbound_queue
      (snd (process_message (sample_agent chat_raises 2 50) (from_user ''hello'') None sample_world)) = []"
    by code_simp
  have l: "logged
      (snd (process_message (sample_agent chat_raises 2 50) (from_user ''hello'') None sample_world)) = []"
    by code_simp
  have m: "channel (from_user ''hello'') = ''cli''" "chat_id (from_user ''hello'') = ''u1''"
    by (simp_all add: from_user_def)
  show ?thesis
    using f q l m
      run_loop_survives_failure[of "sample_agent chat_raises 2 50"
        "[Some (from_user ''hello''), None, Some (from_user ''again'')]" sample_world
        "from_user ''hello''" "[]"]
    by (simp add: APOLOGY_def)
qed

text \<open>
  C7. A consolidation run that reached the provider call. If the call or the parsing of its
  answer failed (an exception, an empty response, a result that is not a dictionary), the
  job ends with nothing changed in the sessions, in the long-term memory and in the history
  log, so the same slice is selected by the next run. The messages of the session are never
  changed by the job, and the cursor at the end is \<open>len(messages) - keep_count\<close> (zero for
  an archive-all run) when the run succeeded and the old cursor otherwise.
\<close>

theorem consolidation_failure_keeps_cursor:
  "select_old_messages agent (heap w a) archive_all = Some (old_messages, keep_count) \<longrightarrow>
   chat agent (consolidation_request agent (long_term w) old_messages) (ext w) = (res, x') \<longrightarrow>
     (response_failed agent res \<longrightarrow>
        heap (consolidate_memory agent a archive_all w) = heap w
        \<and> long_term (consolidate_memory agent a archive_all w) = long_term w
        \<and> history_log (consolidate_memory agent a archive_all w) = history_log w
        \<and> select_old_messages agent (heap (consolidate_memory agent a archive_all w) a) archive_all
            = Some (old_messages, keep_count))
     \<and> messages (heap (consolidate_memory agent a archive_all w) a) = messages (heap w a)
     \<and> last_consolidated (heap (consolidate_memory agent a archive_all w) a)
         = (if response_succeeded agent res then cursor_target agent (heap w a) archive_all
            else last_consolidated (heap w a))
     \<and> \<not> (response_failed agent res \<and> response_succeeded agent res)"
proof (intro impI)
  assume sel: "select_old_messages agent (heap w a) archive_all = Some (old_messages, keep_count)"
    and ch: "chat agent (consolidation_request agent (long_term w) old_messages) (ext w) = (res, x')"
  note h = consolidate_memory_heap[OF sel ch]
  have x: "\<not> (response_failed agent res \<and> response_succeeded agent res)"
    by (auto simp: response_failed_def response_succeeded_def split: sum.splits json.splits)
  have f: "response_failed agent res \<longrightarrow>
        heap (consolidate_memory agent a archive_all w) = heap w
        \<and> long_term (consolidate_memory agent a archive_all w) = long_term w
        \<and> history_log (consolidate_memory agent a archive_all w) = history_log w
        \<and> select_old_messages agent (heap (consolidate_memory agent a archive_all w) a) archive_all
            = Some (old_messages, keep_count)"
    using consolidate_memory_failed[OF sel ch] sel by simp
  have m: "messages (heap (consolidate_memory agent a archive_all w) a) = messages (heap w a)"
    using h by simp
  have c: "last_consolidated (heap (consolidate_memory agent a archive_all w) a)
         = (if response_succeeded agent res then cursor_target agent (heap w a) archive_all
            else last_consolidated (heap w a))"
    using h by simp
  from f m c x show "(response_failed agent res \<longrightarrow>
        heap (consolidate_memory agent a archive_all w) = heap w
        \<and> long_term (consolidate_memory agent a archive_all w) = long_term w
        \<and> history_log (consolidate_memory agent a archive_all w) = history_log w
        \<and> select_old_messages agent (heap (consolidate_memory agent a archive_all w) a) archive_all
            = Some (old_messages, keep_count))
     \<and> messages (heap (consolidate_memory agent a archive_all w) a) = messages (heap w a)
     \<and> last_consolidated (heap (consolidate_memory agent a archive_all w) a)
         = (if response_succeeded agent res then cursor_target agent (heap w a) archive_all
            else last_consolidated (heap w a))
     \<and> \<not> (response_failed agent res \<and> response_succeeded agent res)"
    by blast
qed

theorem consolidation_failure_keeps_cursor_witness:
  "select_old_messages (sample_agent chat_raises 2 2) (heap (world_with two_messages 0) 0) False
     = Some ([said ''user'' ''I like tea''], 1)
   \<and> chat (sample_agent chat_raises 2 2)
        (consolidation_request (sample_agent chat_raises 2 2) (long_term (world_with two_messages 0))
           [said ''user'' ''I like tea''])
        (ext (world_with two_messages 0))
       = (Inl (Exn OtherException ''provider unreachable''), 0)
   \<and> response_failed (sample_agent chat_raises 2 2) (Inl (Exn OtherException ''provider unreachable''))
   \<and> last_consolidated
        (heap (consolidate_memory (sample_agent chat_raises 2 2) 0 False (world_with two_messages 0)) 0)
       = 0
   \<and> history_log (consolidate_memory (sample_agent chat_raises 2 2) 0 False (world_with two_messages 0))
       = []
   \<and> select_old_messages (sample_agent chat_raises 2 2)
        (heap (consolidate_memory (sample_agent chat_raises 2 2) 0 False (world_with two_messages 0)) 0)
        False
       = Some ([said ''user'' ''I like tea''], 1)"
proof -
  have c: "chat (sample_agent chat_raises 2 2)
        (consolidation_request (sample_agent chat_raises 2 2) (long_term (world_with two_messages 0))
           [said ''user'' ''I like tea''])
        (ext (world_with two_messages 0))
       = (Inl (Exn OtherException ''provider unreachable''), 0)"
    by (simp add: sample_agent_def chat_raises_def sample_ext)
  have f: "response_failed (sample_agent chat_raises 2 2) (Inl (Exn OtherException ''provider unreachable''))"
    by (simp add: response_failed_def)
  have s: "\<not> response_succeeded (sample_agent chat_raises 2 2)
              (Inl (Exn OtherException ''provider unreachable''))"
    by (simp add: response_succeeded_def)
  have z: "last_consolidated (heap (world_with two_messages 0) 0) = 0"
    "history_log (world_with two_messages 0) = []"
    by (simp_all add: world_with_def sample_world_def)
  show ?thesis
    using sample_select[of chat_raises] c f s z
      consolidation_failure_keeps_cursor[of "sample_agent chat_raises 2 2" "world_with two_messages 0"
        0 False "[said ''user'' ''I like tea'']" 1 "Inl (Exn OtherException ''provider unreachable'')" 0]
    by simp
qed



text \<open>
  C6. The reactive run at a window of one, on a session of two messages with the cursor at
  zero. \<open>keep_count\<close> is half the window, zero; the session holds more messages than the
  window, which is the condition under which the turn detaches the job; the slice
  \<open>messages[last_consolidated : len(messages) - keep_count]\<close> is the whole conversation
  and is not empty. The method takes \<open>messages[last_consolidated : -keep_count]\<close>, which
  is empty for a \<open>keep_count\<close> of zero: it selects nothing and returns with nothing
  changed and no provider call.
\<close>

theorem reactive_slice_at_window_one:
  "memory_window (sample_agent (chat_replies ''SUMMARY'') 2 1) div 2 = 0
   \<and> memory_window (sample_agent (chat_replies ''SUMMARY'') 2 1)
       < int (length (messages (heap (world_with two_messages 0) 0)))
   \<and> py_slice (messages (heap (world_with two_messages 0) 0))
        (last_consolidated (heap (world_with two_messages 0) 0))
        (int (length (messages (heap (world_with two_messages 0) 0))) - 0) = two_messages
   \<and> two_messages \<noteq> []
   \<and> select_old_messages (sample_agent (chat_replies ''SUMMARY'') 2 1)
        (heap (world_with two_messages 0) 0) False = None
   \<and> consolidate_memory (sample_agent (chat_replies ''SUMMARY'') 2 1) 0 False
        (world_with two_messages 0) = world_with two_messages 0"
proof -
  have s: "select_old_messages (sample_agent (chat_replies ''SUMMARY'') 2 1)
        (heap (world_with two_messages 0) 0) False = None"
    by (simp add: select_old_messages_def sample_agent_def world_with_def two_messages_def
          py_slice_def slice_index_def Let_def)
  have p: "py_slice (messages (heap (world_with two_messages 0) 0))
        (last_consolidated (heap (world_with two_messages 0) 0))
        (int (length (messages (heap (world_with two_messages 0) 0))) - 0) = two_messages"
    by (simp add: world_with_def two_messages_def py_slice_def slice_index_def Let_def)
  have w: "memory_window (sample_agent (chat_replies ''SUMMARY'') 2 1) div 2 = 0"
    "memory_window (sample_agent (chat_replies ''SUMMARY'') 2 1)
       < int (length (messages (heap (world_with two_messages 0) 0)))"
    "two_messages \<noteq> []"
    by (simp_all add: sample_agent_def world_with_def two_messages_def)
  from s p w consolidate_memory_skip[OF s] show ?thesis by simp
qed



end
